theory Spec2Isabelle
  imports Main "HOL-Library.Sublist"
begin

section \<open>Python values shared by both modules\<close>

text \<open>
  Strings are ASCII character lists. \<open>sq\<close> is the single quote that the
  source's f-strings put around interpolated values.
\<close>

definition sq :: char where
  "sq = CHR 0x27"

definition quoted :: "string \<Rightarrow> string" where
  "quoted s = [sq] @ s @ [sq]"

text \<open>
  The process environment \<open>os.environ\<close>: a partial map from variable names to
  values. \<open>getenv_default env k d\<close> is \<open>os.getenv(k, d)\<close>.
\<close>

type_synonym environ = "string \<Rightarrow> string option"

definition getenv_default :: "environ \<Rightarrow> string \<Rightarrow> string \<Rightarrow> string" where
  "getenv_default env k d = (case env k of None \<Rightarrow> d | Some v \<Rightarrow> v)"

text \<open>
  \<open>os.getenv(k) or None\<close>: an unset variable and an empty one both give
  \<open>None\<close>.
\<close>

definition getenv_or_none :: "environ \<Rightarrow> string \<Rightarrow> string option" where
  "getenv_or_none env k = (case env k of None \<Rightarrow> None | Some v \<Rightarrow> if v = [] then None else Some v)"

subsection \<open>Whitespace and \<open>str.strip()\<close>\<close>

text \<open>
  The ASCII characters for which \<open>str.isspace()\<close> holds: tab, line feed,
  vertical tab, form feed, carriage return, the four separators 0x1C..0x1F and the space.
\<close>

definition py_isspace :: "char \<Rightarrow> bool" where
  "py_isspace c = (c \<in> set [CHR 0x09, CHR 0x0A, CHR 0x0B, CHR 0x0C, CHR 0x0D,
                             CHR 0x1C, CHR 0x1D, CHR 0x1E, CHR 0x1F, CHR 0x20])"

definition py_strip :: "string \<Rightarrow> string" where
  "py_strip s = rev (dropWhile py_isspace (rev (dropWhile py_isspace s)))"

subsection \<open>\<open>int(str)\<close> and \<open>str(int)\<close>\<close>

definition is_digit :: "char \<Rightarrow> bool" where
  "is_digit c = (48 \<le> (of_char c :: nat) \<and> (of_char c :: nat) \<le> 57)"

definition digit_val :: "char \<Rightarrow> nat" where
  "digit_val c = of_char c - 48"

text \<open>
  The digits of a base-10 literal as \<open>int()\<close> reads them: decimal digits, with a
  single underscore allowed between two digits. The flag says whether the previous
  character was a digit; a literal must end on a digit.
\<close>

fun parse_digits :: "nat \<Rightarrow> bool \<Rightarrow> string \<Rightarrow> nat option" where
  "parse_digits acc pd [] = (if pd then Some acc else None)"
| "parse_digits acc pd (c # cs) =
     (if is_digit c then parse_digits (acc * 10 + digit_val c) True cs
      else if c = CHR ''_'' \<and> pd then parse_digits acc False cs
      else None)"

text \<open>
  The whitespace \<open>int()\<close> skips at both ends of an ASCII string: tab, line feed,
  vertical tab, form feed, carriage return and the space. The separators 0x1C..0x1F,
  which \<open>str.strip()\<close> removes, are not skipped.
\<close>

definition int_isspace :: "char \<Rightarrow> bool" where
  "int_isspace c = (c \<in> set [CHR 0x09, CHR 0x0A, CHR 0x0B, CHR 0x0C, CHR 0x0D, CHR 0x20])"

definition int_strip :: "string \<Rightarrow> string" where
  "int_strip s = rev (dropWhile int_isspace (rev (dropWhile int_isspace s)))"

definition count_digits :: "string \<Rightarrow> nat" where
  "count_digits s = length (filter is_digit s)"

text \<open>
  The literal \<open>int(s)\<close> reads: whitespace is skipped at both ends, one sign is
  allowed, and the rest must be digits with single underscores between them. The result
  is the sign, the value and the number of digit characters.
\<close>

definition int_literal :: "string \<Rightarrow> (bool \<times> nat \<times> nat) option" where
  "int_literal s =
     (case int_strip s of
        [] \<Rightarrow> None
      | c # cs \<Rightarrow>
          if c = CHR ''-'' then map_option (\<lambda>n. (True, n, count_digits cs)) (parse_digits 0 False cs)
          else if c = CHR ''+'' then map_option (\<lambda>n. (False, n, count_digits cs)) (parse_digits 0 False cs)
          else map_option (\<lambda>n. (False, n, count_digits (c # cs))) (parse_digits 0 False (c # cs)))"

text \<open>
  The default limit on the number of digits of a decimal string that \<open>int()\<close>
  converts (\<open>sys.get_int_max_str_digits()\<close>).
\<close>

definition int_max_str_digits :: nat where
  "int_max_str_digits = 4300"

text \<open>
  \<open>int(s)\<close> for a string. \<open>None\<close> is the \<open>ValueError\<close> of the source: the
  string is no literal, or it has more digits than the limit.
\<close>

definition py_int :: "string \<Rightarrow> int option" where
  "py_int s =
     (case int_literal s of
        None \<Rightarrow> None
      | Some (negative, n, digits) \<Rightarrow>
          if int_max_str_digits < digits then None
          else Some (if negative then - int n else int n))"

fun str_nat :: "nat \<Rightarrow> string" where
  "str_nat n =
     (if n < 10 then [char_of (48 + n)]
      else str_nat (n div 10) @ [char_of (48 + n mod 10)])"

definition py_str_int :: "int \<Rightarrow> string" where
  "py_str_int i = (if i < 0 then CHR ''-'' # str_nat (nat (- i)) else str_nat (nat i))"

text \<open>
  \<open>repr(s)\<close> of an ASCII string: single quotes unless the string has a single and
  no double quote; the quote and the backslash are escaped, tab, line feed and carriage
  return are written \<open>\t\<close>, \<open>\n\<close>, \<open>\r\<close>, and every other control character
  as \<open>\xhh\<close>.
\<close>

definition hex_digit :: "nat \<Rightarrow> char" where
  "hex_digit n = (if n < 10 then char_of (48 + n) else char_of (87 + n))"

definition repr_char :: "char \<Rightarrow> char \<Rightarrow> string" where
  "repr_char q c =
     (if c = q \<or> c = CHR 0x5C then [CHR 0x5C, c]
      else if c = CHR 0x09 then [CHR 0x5C, CHR ''t'']
      else if c = CHR 0x0A then [CHR 0x5C, CHR ''n'']
      else if c = CHR 0x0D then [CHR 0x5C, CHR ''r'']
      else if (of_char c :: nat) < 32 \<or> (of_char c :: nat) = 127 then
        [CHR 0x5C, CHR ''x'', hex_digit ((of_char c :: nat) div 16), hex_digit ((of_char c :: nat) mod 16)]
      else [c])"

definition py_repr :: "string \<Rightarrow> string" where
  "py_repr s =
     (let q = (if sq \<in> set s \<and> CHR 0x22 \<notin> set s then CHR 0x22 else sq)
      in [q] @ concat (map (repr_char q) s) @ [q])"

text \<open>
  The text of the \<open>ValueError\<close> that \<open>int(s)\<close> raises: the literal is shown by
  the first 200 characters of its \<open>repr\<close>; a literal over the digit limit is reported
  with its number of digits.
\<close>

definition int_error_text :: "string \<Rightarrow> string" where
  "int_error_text s =
     (case int_literal s of
        None \<Rightarrow> ''invalid literal for int() with base 10: '' @ take 200 (py_repr s)
      | Some (negative, n, digits) \<Rightarrow>
          ''Exceeds the limit ('' @ str_nat int_max_str_digits
          @ '' digits) for integer string conversion: value has '' @ str_nat digits
          @ '' digits; use sys.set_int_max_str_digits() to increase the limit'')"

section \<open>The remote connection manager (database_falkordb_remote.py)\<close>

subsection \<open>\<open>validate_config\<close>\<close>

text \<open>
  The static method reads two environment variables and returns the pair
  \<open>(is_valid, error_message)\<close>. It has no other input and no effect: the model is
  a function of the environment alone.
\<close>

definition validate_config :: "environ \<Rightarrow> bool \<times> string option" where
  "validate_config env =
     (let host = env ''FALKORDB_HOST'' in
      if host = None \<or> host = Some [] then
        (False, Some ''FALKORDB_HOST environment variable is not set.'')
      else
        let port_str = getenv_default env ''FALKORDB_PORT'' ''6379'' in
        case py_int port_str of
          None \<Rightarrow>
            (False, Some (''FALKORDB_PORT must be a number, got '' @ [sq] @ port_str @ [sq] @ ''.''))
        | Some port \<Rightarrow>
            if \<not> (1 \<le> port \<and> port \<le> 65535) then
              (False, Some (''FALKORDB_PORT must be between 1 and 65535, got '' @ py_str_int port @ ''.''))
            else (True, None))"


subsection \<open>Exceptions\<close>

text \<open>
  A raised exception is a value: the class the handlers of the source distinguish, and
  the text \<open>str(e)\<close>. Every value of \<open>exn\<close> stands for an instance of Python's
  \<open>Exception\<close>, the class all \<open>except Exception\<close> clauses of the two modules
  catch.
\<close>

datatype exn_kind =
  ImportError | ValueError | AttributeError | KeyError | TypeError | TimeoutExpired | OtherError

datatype exn = Exn exn_kind string

fun exn_kind_of :: "exn \<Rightarrow> exn_kind" where
  "exn_kind_of (Exn k m) = k"

fun exn_str :: "exn \<Rightarrow> string" where
  "exn_str (Exn k m) = m"

definition py_str_bool :: "bool \<Rightarrow> string" where
  "py_str_bool b = (if b then ''True'' else ''False'')"

definition py_lower_char :: "char \<Rightarrow> char" where
  "py_lower_char c =
     (if 65 \<le> (of_char c :: nat) \<and> (of_char c :: nat) \<le> 90 then char_of ((of_char c :: nat) + 32) else c)"

definition py_lower :: "string \<Rightarrow> string" where
  "py_lower s = map py_lower_char s"

subsection \<open>The singleton and its configuration\<close>

text \<open>
  The attributes \<open>__init__\<close> assigns. The assignments run in a fixed order and only
  the second (\<open>int(...)\<close> of the port) can raise, so an instance is in one of three
  states: \<open>Uninit\<close> as \<open>__new__\<close> leaves it, \<open>HostOnly\<close> when \<open>__init__\<close>
  raised at the port, and \<open>Ready\<close> with every field and \<open>_initialized\<close> set.
\<close>

record config =
  host :: string
  port :: int
  password :: "string option"
  username :: "string option"
  ssl :: bool
  graph_name :: string

datatype attrs = Uninit | HostOnly string | Ready config

text \<open>
  The manager object: its configuration attributes and the two cached handles
  \<open>_driver\<close> and \<open>_graph\<close> (\<open>None\<close> until assigned). \<open>'d\<close> is the type of client
  objects, \<open>'g\<close> the type of graph objects.
\<close>

record ('d, 'g) manager =
  attrs :: attrs
  driver :: "'d option"
  graph :: "'g option"

text \<open>
  The class-level state: \<open>_instance\<close>, and the number of \<open>atexit\<close> registrations
  of \<open>shutdown\<close>.
\<close>

record ('d, 'g) class_state =
  instance_of :: "('d, 'g) manager option"
  atexit_hooks :: nat

definition fresh_class :: "('d, 'g) class_state" where
  "fresh_class = \<lparr>instance_of = None, atexit_hooks = 0\<rparr>"

text \<open>\<open>__new__\<close>: the instance is created once and stored in \<open>_instance\<close>.\<close>

definition new_instance :: "('d, 'g) class_state \<Rightarrow> ('d, 'g) manager \<times> ('d, 'g) class_state" where
  "new_instance st =
     (case instance_of st of
        None \<Rightarrow>
          (let m = \<lparr>attrs = Uninit, driver = None, graph = None\<rparr>
           in (m, st\<lparr>instance_of := Some m\<rparr>))
      | Some m \<Rightarrow> (m, st))"

text \<open>
  \<open>__init__\<close> on the instance: nothing happens once \<open>_initialized\<close> is set.
  Otherwise the fields are read from the environment in the source's order; the
  \<open>ValueError\<close> of \<open>int\<close> leaves the host assigned and nothing else. The boolean
  says whether \<open>atexit.register\<close> was reached.
\<close>

definition init_attrs :: "environ \<Rightarrow> attrs \<Rightarrow> (exn + unit) \<times> attrs \<times> bool" where
  "init_attrs env a =
     (case a of
        Ready c \<Rightarrow> (Inr (), a, False)
      | _ \<Rightarrow>
          (let h = getenv_default env ''FALKORDB_HOST'' ''localhost'';
               port_str = getenv_default env ''FALKORDB_PORT'' ''6379''
           in case py_int port_str of
                None \<Rightarrow>
                  (Inl (Exn ValueError (int_error_text port_str)),
                   HostOnly h, False)
              | Some p \<Rightarrow>
                  (Inr (),
                   Ready \<lparr>host = h, port = p,
                          password = getenv_or_none env ''FALKORDB_PASSWORD'',
                          username = getenv_or_none env ''FALKORDB_USERNAME'',
                          ssl = (py_lower (getenv_default env ''FALKORDB_SSL'' ''false'')
                                   \<in> set [''true'', ''1'', ''yes'']),
                          graph_name = getenv_default env ''FALKORDB_GRAPH_NAME'' ''codegraph''\<rparr>,
                   True)))"

text \<open>
  The call \<open>FalkorDBRemoteManager()\<close>: \<open>__new__\<close>, then \<open>__init__\<close> on what it
  returned. The result is the instance, or the exception \<open>__init__\<close> raised; the
  class state keeps the instance either way.
\<close>

definition construct ::
  "environ \<Rightarrow> ('d, 'g) class_state \<Rightarrow> (exn + ('d, 'g) manager) \<times> ('d, 'g) class_state" where
  "construct env st =
     (case new_instance st of
        (m, st1) \<Rightarrow>
          (case init_attrs env (attrs m) of
             (r, a, registered) \<Rightarrow>
               (let m' = m\<lparr>attrs := a\<rparr>;
                    st2 = st1\<lparr>instance_of := Some m',
                              atexit_hooks := atexit_hooks st1 + (if registered then 1 else 0)\<rparr>
                in (case r of Inl e \<Rightarrow> (Inl e, st2) | Inr u \<Rightarrow> (Inr m', st2)))))"

subsection \<open>The client library\<close>

text \<open>
  The keyword arguments of the client constructor: a dictionary, kept as the list of
  its items in insertion order.
\<close>

datatype kwval = KStr string | KInt int | KBool bool

type_synonym kwargs = "(string \<times> kwval) list"

text \<open>
  The \<open>falkordb\<close> package as the manager sees it: whether the import raises, the
  constructor \<open>FalkorDB(**kwargs)\<close>, \<open>select_graph\<close> on a client and \<open>query\<close> on
  a graph. Each may raise.
\<close>

record ('d, 'g) client =
  import_falkordb :: "exn option"
  FalkorDB :: "kwargs \<Rightarrow> exn + 'd"
  select_graph :: "'d \<Rightarrow> string \<Rightarrow> exn + 'g"
  query :: "'g \<Rightarrow> string \<Rightarrow> exn + unit"

datatype db_event =
  LogInfo string | LogError string
| CallFalkorDB kwargs | CallSelectGraph string | CallQuery string

datatype 'g driver_wrapper = FalkorDBDriverWrapper "'g option"

text \<open>
  The dictionary \<open>get_driver\<close> and \<open>test_connection\<close> assemble: host and port, then
  each optional entry only when its value is truthy.
\<close>

definition build_kwargs :: "string \<Rightarrow> int \<Rightarrow> string option \<Rightarrow> string option \<Rightarrow> bool \<Rightarrow> kwargs" where
  "build_kwargs h p pw un s =
     [(''host'', KStr h), (''port'', KInt p)]
     @ (case pw of None \<Rightarrow> [] | Some x \<Rightarrow> if x = [] then [] else [(''password'', KStr x)])
     @ (case un of None \<Rightarrow> [] | Some x \<Rightarrow> if x = [] then [] else [(''username'', KStr x)])
     @ (if s then [(''ssl'', KBool True)] else [])"

subsection \<open>\<open>get_driver\<close>\<close>

definition no_attribute :: "string \<Rightarrow> string" where
  "no_attribute a = quoted ''FalkorDBRemoteManager'' @ '' object has no attribute '' @ quoted a"

text \<open>
  The body of the \<open>try\<close> in \<open>get_driver\<close>. Each assignment to \<open>self._driver\<close>
  and \<open>self._graph\<close> happens where the source makes it, so the manager returned with
  an exception holds whatever was assigned before the raise. Reading \<open>self.port\<close> on
  an instance whose \<open>__init__\<close> did not finish is the \<open>AttributeError\<close> of the
  log line.
\<close>

definition connect ::
  "('d, 'g) client \<Rightarrow> ('d, 'g) manager \<Rightarrow> (exn + unit) \<times> ('d, 'g) manager \<times> db_event list" where
  "connect cl m =
     (case import_falkordb cl of
        Some e \<Rightarrow> (Inl e, m, [])
      | None \<Rightarrow>
          (case attrs m of
             Uninit \<Rightarrow> (Inl (Exn AttributeError (no_attribute ''host'')), m, [])
           | HostOnly h \<Rightarrow> (Inl (Exn AttributeError (no_attribute ''port'')), m, [])
           | Ready c \<Rightarrow>
               (let ev0 = [LogInfo (''Connecting to remote FalkorDB at '' @ host c @ '':''
                             @ py_str_int (port c) @ '' (ssl='' @ py_str_bool (ssl c) @ '')'')];
                    kw = build_kwargs (host c) (port c) (password c) (username c) (ssl c);
                    ev1 = ev0 @ [CallFalkorDB kw]
                in case FalkorDB cl kw of
                     Inl e \<Rightarrow> (Inl e, m, ev1)
                   | Inr d \<Rightarrow>
                       (let m1 = m\<lparr>driver := Some d\<rparr>;
                            ev2 = ev1 @ [CallSelectGraph (graph_name c)]
                        in case select_graph cl d (graph_name c) of
                             Inl e \<Rightarrow> (Inl e, m1, ev2)
                           | Inr g \<Rightarrow>
                               (let m2 = m1\<lparr>graph := Some g\<rparr>;
                                    ev3 = ev2 @ [CallQuery ''RETURN 1'']
                                in case query cl g ''RETURN 1'' of
                                     Inl e \<Rightarrow> (Inl e, m2, ev3)
                                   | Inr u \<Rightarrow>
                                       (Inr (), m2,
                                        ev3 @ [LogInfo ''Remote FalkorDB connection established successfully'',
                                               LogInfo (''Graph name: '' @ graph_name c)]))))))"

text \<open>
  \<open>get_driver\<close>: the connection is attempted only when \<open>_driver\<close> is \<open>None\<close>.
  An \<open>ImportError\<close> becomes the \<open>ValueError\<close> of the missing client; any other
  exception is logged and raised again. The wrapper is built from \<open>_graph\<close>.
\<close>

definition get_driver ::
  "('d, 'g) client \<Rightarrow> ('d, 'g) manager \<Rightarrow> (exn + 'g driver_wrapper) \<times> ('d, 'g) manager \<times> db_event list" where
  "get_driver cl m =
     (if driver m = None then
        (case connect cl m of
           (Inl e, m', evs) \<Rightarrow>
             if exn_kind_of e = ImportError then
               (Inl (Exn ValueError ''FalkorDB client missing.''), m',
                evs @ [LogError (''FalkorDB client is not installed. Install it with:'' @ [CHR 0x0A]
                           @ ''  pip install falkordb'')])
             else
               (Inl e, m', evs @ [LogError (''Failed to connect to remote FalkorDB: '' @ exn_str e)])
         | (Inr u, m', evs) \<Rightarrow> (Inr (FalkorDBDriverWrapper (graph m')), m', evs))
      else (Inr (FalkorDBDriverWrapper (graph m)), m, []))"

definition close_driver :: "('d, 'g) manager \<Rightarrow> ('d, 'g) manager" where
  "close_driver m = m\<lparr>driver := None, graph := None\<rparr>"

definition shutdown :: "('d, 'g) manager \<Rightarrow> ('d, 'g) manager" where
  "shutdown m = close_driver m"

text \<open>
  \<open>is_connected\<close>: the result type has room for an exception, the source's handler
  leaves none.
\<close>

definition is_connected :: "('d, 'g) client \<Rightarrow> ('d, 'g) manager \<Rightarrow> (exn + bool) \<times> db_event list" where
  "is_connected cl m =
     (case graph m of
        None \<Rightarrow> (Inr False, [])
      | Some g \<Rightarrow>
          (case query cl g ''RETURN 1'' of
             Inl e \<Rightarrow> (Inr False, [CallQuery ''RETURN 1''])
           | Inr u \<Rightarrow> (Inr True, [CallQuery ''RETURN 1''])))"

definition get_backend_type :: "('d, 'g) manager \<Rightarrow> string" where
  "get_backend_type m = ''falkordb-remote''"

subsection \<open>\<open>test_connection\<close>\<close>

text \<open>
  The static probe reads the environment again and connects once, outside the
  singleton. The \<open>int\<close> of the port stands before the \<open>try\<close>, so its
  \<open>ValueError\<close> is raised to the caller.
\<close>

definition test_connection ::
  "('d, 'g) client \<Rightarrow> environ \<Rightarrow> (exn + bool \<times> string option) \<times> db_event list" where
  "test_connection cl env =
     (case import_falkordb cl of
        Some e \<Rightarrow>
          if exn_kind_of e = ImportError then
            (Inr (False, Some (''FalkorDB client is not installed.'' @ [CHR 0x0A]
                          @ ''Install it with: pip install falkordb'')), [])
          else (Inl e, [])
      | None \<Rightarrow>
        (case getenv_or_none env ''FALKORDB_HOST'' of
           None \<Rightarrow> (Inr (False, Some ''FALKORDB_HOST is not set.''), [])
         | Some h \<Rightarrow>
             (let port_str = getenv_default env ''FALKORDB_PORT'' ''6379''
              in case py_int port_str of
                   None \<Rightarrow>
                     (Inl (Exn ValueError (int_error_text port_str)), [])
                 | Some p \<Rightarrow>
                     (let pw = getenv_or_none env ''FALKORDB_PASSWORD'';
                          un = getenv_or_none env ''FALKORDB_USERNAME'';
                          s = (py_lower (getenv_default env ''FALKORDB_SSL'' ''false'')
                                 \<in> set [''true'', ''1'', ''yes'']);
                          gname = getenv_default env ''FALKORDB_GRAPH_NAME'' ''codegraph'';
                          kw = build_kwargs h p pw un s;
                          failed = (\<lambda>e. Inr (False, Some (''Connection failed: '' @ exn_str e)))
                      in case FalkorDB cl kw of
                           Inl e \<Rightarrow> (failed e, [CallFalkorDB kw])
                         | Inr d \<Rightarrow>
                             (case select_graph cl d gname of
                                Inl e \<Rightarrow> (failed e, [CallFalkorDB kw, CallSelectGraph gname])
                              | Inr g \<Rightarrow>
                                  (case query cl g ''RETURN 1'' of
                                     Inl e \<Rightarrow>
                                       (failed e, [CallFalkorDB kw, CallSelectGraph gname, CallQuery ''RETURN 1''])
                                   | Inr u \<Rightarrow>
                                       (Inr (True, None),
                                        [CallFalkorDB kw, CallSelectGraph gname, CallQuery ''RETURN 1''])))))))"


section \<open>The indexing handlers (indexing_handlers.py)\<close>

subsection \<open>String operations of the handlers\<close>

text \<open>
  \<open>s.replace(old, new)\<close> for a non-empty \<open>old\<close>: the occurrences are found from
  the left and do not overlap; the search resumes after each one. With an empty
  \<open>old\<close> Python puts \<open>new\<close> before every character and at the end.
\<close>

function replace_from :: "string \<Rightarrow> string \<Rightarrow> string \<Rightarrow> string" where
  "replace_from old new s =
     (if s = [] \<or> old = [] then s
      else if prefix old s then new @ replace_from old new (drop (length old) s)
      else hd s # replace_from old new (tl s))"
  by pat_completeness auto
termination
  by (relation "measure (\<lambda>(old, new, s). length s)") (auto simp: neq_Nil_conv)

definition py_replace :: "string \<Rightarrow> string \<Rightarrow> string \<Rightarrow> string" where
  "py_replace old new s =
     (if old = [] then new @ concat (map (\<lambda>c. c # new) s) else replace_from old new s)"

text \<open>\<open>s.rstrip("/")\<close> and the last element of \<open>s.split("/")\<close>.\<close>

definition rstrip_slash :: "string \<Rightarrow> string" where
  "rstrip_slash s = rev (dropWhile (\<lambda>c. c = CHR ''/'') (rev s))"

definition last_segment :: "string \<Rightarrow> string" where
  "last_segment s = rev (takeWhile (\<lambda>c. c \<noteq> CHR ''/'') (rev s))"

text \<open>The repository name: the last path segment, without a final \<open>.git\<close>.\<close>

definition derive_repo_name :: "string \<Rightarrow> string" where
  "derive_repo_name url_path =
     (let repo_name = last_segment (rstrip_slash url_path)
      in if suffix ''.git'' repo_name then take (length repo_name - 4) repo_name else repo_name)"

text \<open>
  \<open>str(Path("/workspace") / repo_name)\<close> for a name without a slash: a single dot
  is dropped by \<open>pathlib\<close>, every other name is joined.
\<close>

definition workspace_join :: "string \<Rightarrow> string" where
  "workspace_join repo_name = (if repo_name = ''.'' then ''/workspace'' else ''/workspace/'' @ repo_name)"

text \<open>
  \<open>str(Path(p))\<close> on a POSIX system: the root is \<open>//\<close> for exactly two leading
  slashes and \<open>/\<close> for any other number; empty components and single dots are dropped
  (so repeated and trailing slashes vanish); a path with neither root nor components is
  \<open>.\<close>.
\<close>

fun split_on :: "char \<Rightarrow> string \<Rightarrow> string list" where
  "split_on c [] = [[]]"
| "split_on c (x # xs) =
     (if x = c then [] # split_on c xs
      else (case split_on c xs of [] \<Rightarrow> [[x]] | y # ys \<Rightarrow> (x # y) # ys))"

fun join_with :: "string \<Rightarrow> string list \<Rightarrow> string" where
  "join_with sep [] = []"
| "join_with sep [x] = x"
| "join_with sep (x # y # ys) = x @ sep @ join_with sep (y # ys)"

definition py_path_str :: "string \<Rightarrow> string" where
  "py_path_str p =
     (let root = (if prefix ''//'' p \<and> \<not> prefix ''///'' p then ''//''
                  else if prefix ''/'' p then ''/'' else []);
          parts = filter (\<lambda>x. x \<noteq> [] \<and> x \<noteq> ''.'') (split_on CHR ''/'' p)
      in if root = [] \<and> parts = [] then ''.'' else root @ join_with ''/'' parts)"

subsection \<open>Values, records and collaborators\<close>

text \<open>
  The values of a result dictionary; \<open>'t\<close> is the type of the estimator's duration
  (a Python float, kept abstract). A dictionary is the list of its items in insertion
  order.
\<close>

datatype 't pyval = VBool bool | VStr string | VInt int | VFloat 't

type_synonym 't pydict = "(string \<times> 't pyval) list"

text \<open>
  An entry of the repository listing: the value under \<open>"path"\<close> (\<open>None\<close> when the
  key is missing, the \<open>KeyError\<close> of \<open>repo["path"]\<close>), the value of
  \<open>repo.get("name")\<close> and the truth value of \<open>repo.get("is_dependency")\<close>.
\<close>

record repo =
  repo_path :: "string option"
  repo_name :: "string option"
  repo_is_dependency :: bool

text \<open>What \<open>urlparse\<close> returns; reading \<open>.port\<close> may raise \<open>ValueError\<close>.\<close>

record parsed_url =
  url_scheme :: string
  url_hostname :: "string option"
  url_port :: "exn + int option"
  url_path :: string

datatype coro = Coro string bool string

text \<open>
  Everything outside the handlers: the filesystem, the environment, the library
  functions and the injected collaborators. Every call that can raise returns a sum.
  \<open>list_repos_func\<close> gives the value under \<open>"repositories"\<close> (\<open>None\<close> when the
  key is missing); \<open>estimate_processing_time\<close> gives the pair the source unpacks;
  \<open>git_clone\<close> is \<open>subprocess.run\<close> on the argument vector and gives the return
  code and the captured error text; \<open>round2\<close> is \<open>round(t, 2)\<close> and
  \<open>duration_human\<close> the conditional f-string of the payload, whose \<open>int\<close> of a
  float may raise.
\<close>

record 't world =
  resolve :: "string \<Rightarrow> exn + string"
  path_exists :: "string \<Rightarrow> exn + bool"
  os_path_exists :: "string \<Rightarrow> bool"
  os_environ :: environ
  urlparse :: "string \<Rightarrow> exn + parsed_url"
  git_clone :: "string list \<Rightarrow> exn + int \<times> string"
  list_repos_func :: "exn + repo list option"
  get_local_package_path :: "string option \<Rightarrow> string \<Rightarrow> exn + string option"
  estimate_processing_time :: "string \<Rightarrow> exn + int \<times> 't"
  create_job :: "string \<Rightarrow> bool \<Rightarrow> exn + string"
  update_job :: "string \<Rightarrow> int \<Rightarrow> 't \<Rightarrow> exn + unit"
  build_graph_from_path_async :: "string \<Rightarrow> bool \<Rightarrow> string \<Rightarrow> exn option"
  run_coroutine_threadsafe :: "coro \<Rightarrow> exn option"
  round2 :: "'t \<Rightarrow> 't"
  duration_human :: "'t \<Rightarrow> exn + string"

text \<open>The calls a handler makes on its collaborators, in the order it makes them.\<close>

datatype 't call =
  ListRepos
| LocatePackage "string option" string
| GitClone "string list"
| Estimate string
| CreateJob string bool
| UpdateJob string int 't
| BuildCoro string bool string
| Submit coro
| DebugLog string

subsection \<open>Effects: a trace of calls, and exceptions\<close>

type_synonym ('a, 't) eff = "'t call list \<Rightarrow> (exn + 'a) \<times> 't call list"

definition ret :: "'a \<Rightarrow> ('a, 't) eff" where
  "ret x = (\<lambda>tr. (Inr x, tr))"

definition lift :: "exn + 'a \<Rightarrow> ('a, 't) eff" where
  "lift r = (\<lambda>tr. (r, tr))"

definition call :: "'t call \<Rightarrow> exn + 'a \<Rightarrow> ('a, 't) eff" where
  "call c r = (\<lambda>tr. (r, tr @ [c]))"

definition bind :: "('a, 't) eff \<Rightarrow> ('a \<Rightarrow> ('b, 't) eff) \<Rightarrow> ('b, 't) eff" where
  "bind m f = (\<lambda>tr. case m tr of (Inl e, tr') \<Rightarrow> (Inl e, tr') | (Inr x, tr') \<Rightarrow> f x tr')"

definition try_except :: "('a, 't) eff \<Rightarrow> (exn \<Rightarrow> ('a, 't) eff) \<Rightarrow> ('a, 't) eff" where
  "try_except m h = (\<lambda>tr. case m tr of (Inl e, tr') \<Rightarrow> h e tr' | (Inr x, tr') \<Rightarrow> (Inr x, tr'))"

definition opt_exn :: "exn option \<Rightarrow> exn + unit" where
  "opt_exn r = (case r of None \<Rightarrow> Inr () | Some e \<Rightarrow> Inl e)"

subsection \<open>The steps the three handlers share\<close>

text \<open>
  The loop over the listed repositories of \<open>index_repository\<close> and
  \<open>add_code_to_graph\<close>: \<open>True\<close> at the first entry whose resolved path equals the
  candidate, \<open>False\<close> when the list is exhausted. A missing \<open>"path"\<close> key and a
  failing \<open>resolve\<close> raise.
\<close>

fun already_indexed :: "'t world \<Rightarrow> string \<Rightarrow> repo list \<Rightarrow> (bool, 't) eff" where
  "already_indexed w path_obj [] = ret False"
| "already_indexed w path_obj (r # rs) =
     (case repo_path r of
        None \<Rightarrow> lift (Inl (Exn KeyError ([sq] @ ''path'' @ [sq])))
      | Some q \<Rightarrow>
          bind (lift (resolve w q)) (\<lambda>rq.
            if rq = path_obj then ret True else already_indexed w path_obj rs))"

definition repositories :: "repo list option \<Rightarrow> repo list" where
  "repositories l = (case l of None \<Rightarrow> [] | Some rs \<Rightarrow> rs)"

text \<open>
  The lines every handler runs after its checks: estimate, create the job, update it,
  build the coroutine and submit it. \<open>path_obj\<close> is the text of the path object
  handed to the estimator and the work factory, \<open>job_path\<close> the string handed to
  \<open>create_job\<close>. The result is the job id with the estimate.
\<close>

definition start_job :: "'t world \<Rightarrow> string \<Rightarrow> string \<Rightarrow> bool \<Rightarrow> (string \<times> int \<times> 't, 't) eff" where
  "start_job w path_obj job_path is_dependency =
     bind (call (Estimate path_obj) (estimate_processing_time w path_obj)) (\<lambda>(total_files, estimated_time).
     bind (call (CreateJob job_path is_dependency) (create_job w job_path is_dependency)) (\<lambda>job_id.
     bind (call (UpdateJob job_id total_files estimated_time)
             (update_job w job_id total_files estimated_time)) (\<lambda>u.
     bind (call (BuildCoro path_obj is_dependency job_id)
             (opt_exn (build_graph_from_path_async w path_obj is_dependency job_id))) (\<lambda>u.
     bind (call (Submit (Coro path_obj is_dependency job_id))
             (opt_exn (run_coroutine_threadsafe w (Coro path_obj is_dependency job_id)))) (\<lambda>u.
     ret (job_id, total_files, estimated_time))))))"

text \<open>The entries of the success payload that carry the estimate.\<close>

definition estimate_entries :: "'t world \<Rightarrow> int \<Rightarrow> 't \<Rightarrow> string \<Rightarrow> ('t pydict, 't) eff" where
  "estimate_entries w total_files estimated_time job_id =
     bind (lift (duration_human w estimated_time)) (\<lambda>human.
     ret [(''estimated_files'', VInt total_files),
          (''estimated_duration_seconds'', VFloat (round2 w estimated_time)),
          (''estimated_duration_human'', VStr human),
          (''instructions'', VStr (''Use '' @ [sq] @ ''check_job_status'' @ [sq] @ '' with job_id ''
              @ [sq] @ job_id @ [sq] @ '' to monitor progress''))])"

definition py_str_opt :: "string option \<Rightarrow> string" where
  "py_str_opt x = (case x of None \<Rightarrow> ''None'' | Some s \<Rightarrow> s)"

definition truthy :: "string option \<Rightarrow> bool" where
  "truthy x = (case x of None \<Rightarrow> False | Some s \<Rightarrow> s \<noteq> [])"


text \<open>
  The keyword arguments of a tool call, each \<open>None\<close> when the key is absent.
\<close>

record tool_args =
  arg_url :: "string option"
  arg_branch :: "string option"
  arg_path :: "string option"
  arg_package_name :: "string option"
  arg_language :: "string option"
  arg_is_dependency :: "bool option"

definition get_default :: "'a option \<Rightarrow> 'a \<Rightarrow> 'a" where
  "get_default x d = (case x of None \<Rightarrow> d | Some v \<Rightarrow> v)"

subsection \<open>\<open>index_repository\<close>\<close>

text \<open>
  The clone URL: the token goes into the user-info position when a token is set and
  the URL has a host; scheme, port (when truthy) and path are kept.
\<close>

definition build_clone_url :: "string \<Rightarrow> parsed_url \<Rightarrow> string option \<Rightarrow> exn + string" where
  "build_clone_url u parsed git_token =
     (case git_token of
        None \<Rightarrow> Inr u
      | Some tok \<Rightarrow>
          if tok \<noteq> [] \<and> truthy (url_hostname parsed) then
            (case url_port parsed of
               Inl e \<Rightarrow> Inl e
             | Inr po \<Rightarrow>
                 Inr (url_scheme parsed @ ''://'' @ tok @ ''@'' @ py_str_opt (url_hostname parsed)
                      @ (case po of None \<Rightarrow> [] | Some n \<Rightarrow> if n = 0 then [] else '':'' @ py_str_int n)
                      @ url_path parsed))
          else Inr u)"

text \<open>The sanitising of the captured error text.\<close>

definition redact :: "string option \<Rightarrow> string \<Rightarrow> string" where
  "redact git_token stderr =
     (case git_token of
        None \<Rightarrow> stderr
      | Some tok \<Rightarrow> if tok = [] then stderr else py_replace tok ''***'' stderr)"

definition index_repository_body :: "'t world \<Rightarrow> string \<Rightarrow> string \<Rightarrow> bool \<Rightarrow> ('t pydict, 't) eff" where
  "index_repository_body w u branch is_dependency =
     bind (lift (urlparse w u)) (\<lambda>parsed.
       let repo_name = derive_repo_name (url_path parsed) in
       if repo_name = [] then
         ret [(''error'', VStr (''Could not derive repository name from URL: '' @ u))]
       else
         let clone_path = workspace_join repo_name in
         bind (lift (resolve w clone_path)) (\<lambda>path_obj.
         bind (call ListRepos (list_repos_func w)) (\<lambda>listing.
         bind (already_indexed w path_obj (repositories listing)) (\<lambda>dup.
           if dup then
             ret [(''success'', VBool False),
                  (''message'', VStr (''Repository '' @ quoted repo_name @ '' is already indexed at ''
                       @ path_obj @ ''.''))]
           else
             let git_token = os_environ w ''GIT_TOKEN'' in
             bind (lift (build_clone_url u parsed git_token)) (\<lambda>clone_url.
             bind (call (DebugLog (''Cloning '' @ u @ '' (branch: '' @ branch @ '') into '' @ clone_path))
                     (Inr ())) (\<lambda>l.
             bind (call (GitClone [''git'', ''clone'', ''--depth'', ''1'', ''--branch'', branch, clone_url, clone_path])
                     (git_clone w [''git'', ''clone'', ''--depth'', ''1'', ''--branch'', branch, clone_url, clone_path]))
               (\<lambda>(returncode, stderr).
                 if returncode \<noteq> 0 then
                   ret [(''error'', VStr (''git clone failed: '' @ py_strip (redact git_token stderr)))]
                 else
                   bind (start_job w path_obj path_obj is_dependency) (\<lambda>(job_id, total_files, estimated_time).
                   bind (call (DebugLog (''Started background job '' @ job_id @ '' for cloned repo: ''
                                 @ repo_name @ '' at '' @ path_obj)) (Inr ())) (\<lambda>l.
                   bind (estimate_entries w total_files estimated_time job_id) (\<lambda>entries.
                     ret ([(''success'', VBool True), (''job_id'', VStr job_id),
                           (''repository'', VStr repo_name),
                           (''clone_path'', VStr path_obj),
                           (''branch'', VStr branch),
                           (''message'', VStr (''Cloned '' @ quoted repo_name @ '' and started indexing''))]
                          @ entries)))))))))))"

definition index_repository_handler :: "string \<Rightarrow> exn \<Rightarrow> ('t pydict, 't) eff" where
  "index_repository_handler u e =
     (if exn_kind_of e = TimeoutExpired then
        ret [(''error'', VStr (''git clone timed out after 300 seconds for '' @ u))]
      else
        bind (call (DebugLog (''Error in index_repository: '' @ exn_str e)) (Inr ())) (\<lambda>l.
          ret [(''error'', VStr (''Failed to clone and index repository: '' @ exn_str e))]))"

definition index_repository :: "'t world \<Rightarrow> tool_args \<Rightarrow> ('t pydict, 't) eff" where
  "index_repository w args =
     (let branch = get_default (arg_branch args) ''main'';
          is_dependency = get_default (arg_is_dependency args) False
      in case arg_url args of
           None \<Rightarrow> ret [(''error'', VStr (''The '' @ quoted ''url'' @ '' parameter is required.''))]
         | Some u \<Rightarrow>
             if u = [] then ret [(''error'', VStr (''The '' @ quoted ''url'' @ '' parameter is required.''))]
             else try_except (index_repository_body w u branch is_dependency) (index_repository_handler u))"

subsection \<open>\<open>add_code_to_graph\<close>\<close>

definition add_code_to_graph_body :: "'t world \<Rightarrow> string option \<Rightarrow> bool \<Rightarrow> ('t pydict, 't) eff" where
  "add_code_to_graph_body w path is_dependency =
     (case path of
        None \<Rightarrow> lift (Inl (Exn TypeError ''expected str, bytes or os.PathLike object, not NoneType''))
      | Some p \<Rightarrow>
          bind (lift (resolve w p)) (\<lambda>path_obj.
          bind (lift (path_exists w path_obj)) (\<lambda>ex.
            if \<not> ex then
              ret [(''success'', VBool True),
                   (''status'', VStr ''path_not_found''),
                   (''message'', VStr (''Path '' @ quoted p @ '' does not exist.''))]
            else
              bind (call ListRepos (list_repos_func w)) (\<lambda>listing.
              bind (already_indexed w path_obj (repositories listing)) (\<lambda>dup.
                if dup then
                  ret [(''success'', VBool False),
                       (''message'', VStr (''Repository '' @ quoted p @ '' is already indexed.''))]
                else
                  bind (start_job w path_obj path_obj is_dependency) (\<lambda>(job_id, total_files, estimated_time).
                  bind (call (DebugLog (''Started background job '' @ job_id @ '' for path: '' @ path_obj
                                @ '', is_dependency: '' @ py_str_bool is_dependency)) (Inr ())) (\<lambda>l.
                  bind (estimate_entries w total_files estimated_time job_id) (\<lambda>entries.
                    ret ([(''success'', VBool True), (''job_id'', VStr job_id),
                          (''message'', VStr (''Background processing started for '' @ path_obj))]
                         @ entries)))))))))"

definition add_code_to_graph_handler :: "exn \<Rightarrow> ('t pydict, 't) eff" where
  "add_code_to_graph_handler e =
     bind (call (DebugLog (''Error creating background job: '' @ exn_str e)) (Inr ())) (\<lambda>l.
       ret [(''error'', VStr (''Failed to start background processing: '' @ exn_str e))])"

definition add_code_to_graph :: "'t world \<Rightarrow> tool_args \<Rightarrow> ('t pydict, 't) eff" where
  "add_code_to_graph w args =
     try_except
       (add_code_to_graph_body w (arg_path args) (get_default (arg_is_dependency args) False))
       add_code_to_graph_handler"

subsection \<open>\<open>add_package_to_graph\<close>\<close>

text \<open>
  The loop over the listing: an entry matches when its dependency flag is truthy and
  its name is the package name or the package name followed by \<open>.py\<close>.
\<close>

fun package_listed :: "string option \<Rightarrow> repo list \<Rightarrow> bool" where
  "package_listed package_name [] = False"
| "package_listed package_name (r # rs) =
     (if repo_is_dependency r
         \<and> (repo_name r = package_name \<or> repo_name r = Some (py_str_opt package_name @ ''.py''))
      then True
      else package_listed package_name rs)"

definition add_package_to_graph_body ::
  "'t world \<Rightarrow> string option \<Rightarrow> string \<Rightarrow> bool \<Rightarrow> ('t pydict, 't) eff" where
  "add_package_to_graph_body w package_name lang is_dependency =
     bind (call ListRepos (list_repos_func w)) (\<lambda>listing.
       if package_listed package_name (repositories listing) then
         ret [(''success'', VBool False),
              (''message'', VStr (''Package '' @ quoted (py_str_opt package_name) @ '' is already indexed.''))]
       else
         bind (call (LocatePackage package_name lang) (get_local_package_path w package_name lang))
           (\<lambda>package_path.
             if \<not> truthy package_path then
               ret [(''error'', VStr (''Could not find package '' @ quoted (py_str_opt package_name)
                      @ '' for language '' @ quoted lang @ ''. Make sure it'' @ [sq] @ ''s installed.''))]
             else if \<not> os_path_exists w (py_str_opt package_path) then
               ret [(''error'', VStr (''Package path '' @ quoted (py_str_opt package_path) @ '' does not exist''))]
             else
               bind (start_job w (py_path_str (py_str_opt package_path)) (py_str_opt package_path)
                       is_dependency)
                 (\<lambda>(job_id, total_files, estimated_time).
               bind (call (DebugLog (''Started background job '' @ job_id @ '' for package: ''
                             @ py_str_opt package_name @ '' at '' @ py_str_opt package_path
                             @ '', is_dependency: '' @ py_str_bool is_dependency)) (Inr ())) (\<lambda>l.
               bind (estimate_entries w total_files estimated_time job_id) (\<lambda>entries.
                 ret ([(''success'', VBool True), (''job_id'', VStr job_id),
                       (''package_name'', VStr (py_str_opt package_name)),
                       (''discovered_path'', VStr (py_str_opt package_path)),
                       (''message'', VStr (''Background processing started for package ''
                           @ quoted (py_str_opt package_name)))]
                      @ entries))))))"

definition add_package_to_graph_handler :: "string option \<Rightarrow> exn \<Rightarrow> ('t pydict, 't) eff" where
  "add_package_to_graph_handler package_name e =
     bind (call (DebugLog (''Error creating background job for package '' @ py_str_opt package_name
                   @ '': '' @ exn_str e)) (Inr ())) (\<lambda>l.
       ret [(''error'', VStr (''Failed to start background processing for package ''
              @ quoted (py_str_opt package_name) @ '': '' @ exn_str e))])"

definition add_package_to_graph :: "'t world \<Rightarrow> tool_args \<Rightarrow> ('t pydict, 't) eff" where
  "add_package_to_graph w args =
     (let package_name = arg_package_name args;
          is_dependency = get_default (arg_is_dependency args) True
      in case arg_language args of
           None \<Rightarrow> ret [(''error'', VStr (''The '' @ quoted ''language'' @ '' parameter is required.''))]
         | Some lang \<Rightarrow>
             if lang = [] then ret [(''error'', VStr (''The '' @ quoted ''language'' @ '' parameter is required.''))]
             else try_except (add_package_to_graph_body w package_name lang is_dependency)
                    (add_package_to_graph_handler package_name))"


section \<open>Notions used to state the properties\<close>

text \<open>\<open>hasattr(instance, '_initialized')\<close> for the stored instance.\<close>

definition initialized :: "('d, 'g) class_state \<Rightarrow> bool" where
  "initialized st =
     (case instance_of st of
        None \<Rightarrow> False
      | Some m \<Rightarrow> (case attrs m of Ready c \<Rightarrow> True | _ \<Rightarrow> False))"

text \<open>The keyword dictionaries of the constructor calls in a trace.\<close>

fun constructor_calls :: "db_event list \<Rightarrow> kwargs list" where
  "constructor_calls [] = []"
| "constructor_calls (CallFalkorDB k # evs) = k # constructor_calls evs"
| "constructor_calls (e # evs) = constructor_calls evs"

text \<open>
  Concrete inputs: a manager initialised from an environment that sets only
  \<open>FALKORDB_HOST\<close>, a client library whose calls all succeed, one whose
  \<open>select_graph\<close> raises and one whose liveness query raises.
\<close>

definition cfg0 :: config where
  "cfg0 = \<lparr>host = ''db.example'', port = 6379, password = None, username = None,
           ssl = False, graph_name = ''codegraph''\<rparr>"

definition mgr0 :: "(nat, nat) manager" where
  "mgr0 = \<lparr>attrs = Ready cfg0, driver = None, graph = None\<rparr>"

definition client_ok :: "(nat, nat) client" where
  "client_ok = \<lparr>import_falkordb = None, FalkorDB = (\<lambda>k. Inr 1),
                select_graph = (\<lambda>d n. Inr 2), query = (\<lambda>g q. Inr ())\<rparr>"

definition client_no_graph :: "(nat, nat) client" where
  "client_no_graph = client_ok\<lparr>select_graph := (\<lambda>d n. Inl (Exn OtherError ''graph unavailable''))\<rparr>"

definition client_probe_fails :: "(nat, nat) client" where
  "client_probe_fails = client_ok\<lparr>query := (\<lambda>g q. Inl (Exn OtherError ''connection reset''))\<rparr>"


text \<open>
  A listed entry whose \<open>"path"\<close> is present and resolves; one that resolves to a
  given path; one that the name test of \<open>add_package_to_graph\<close> accepts.
\<close>

definition entry_resolves :: "'t world \<Rightarrow> repo \<Rightarrow> bool" where
  "entry_resolves w r =
     (case repo_path r of
        None \<Rightarrow> False
      | Some q \<Rightarrow> (case resolve w q of Inl e \<Rightarrow> False | Inr x \<Rightarrow> True))"

definition entry_resolves_to :: "'t world \<Rightarrow> string \<Rightarrow> repo \<Rightarrow> bool" where
  "entry_resolves_to w path_obj r =
     (case repo_path r of None \<Rightarrow> False | Some q \<Rightarrow> resolve w q = Inr path_obj)"

definition name_matches :: "string option \<Rightarrow> repo \<Rightarrow> bool" where
  "name_matches package_name r =
     (repo_is_dependency r
      \<and> (repo_name r = package_name \<or> repo_name r = Some (py_str_opt package_name @ ''.py'')))"

text \<open>The argument vectors of the clone calls in a trace.\<close>

fun clone_calls :: "'t call list \<Rightarrow> string list list" where
  "clone_calls [] = []"
| "clone_calls (GitClone argv # tr) = argv # clone_calls tr"
| "clone_calls (c # tr) = clone_calls tr"

text \<open>
  Concrete inputs for the handlers. \<open>world0\<close>: the relative spellings \<open>proj\<close> and
  \<open>./proj\<close> resolve to \<open>/srv/proj\<close>, the only existing path; the URL parses to
  host \<open>example.com\<close> and path \<open>/org/myrepo.git\<close>; every collaborator succeeds.
  The variants set the token and the outcome of the clone, the listing, or make the
  estimator and the clone fail.
\<close>

definition world0 :: "int world" where
  "world0 =
     \<lparr>resolve = (\<lambda>p. if p = ''proj'' \<or> p = ''./proj'' then Inr ''/srv/proj'' else Inr p),
      path_exists = (\<lambda>p. Inr (p = ''/srv/proj'')),
      os_path_exists = (\<lambda>p. True),
      os_environ = Map.empty,
      urlparse = (\<lambda>u. Inr \<lparr>url_scheme = ''https'', url_hostname = Some ''example.com'',
                            url_port = Inr None, url_path = ''/org/myrepo.git''\<rparr>),
      git_clone = (\<lambda>argv. Inr (0, [])),
      list_repos_func = Inr (Some []),
      get_local_package_path = (\<lambda>n l. Inr (Some ''/node_modules/@babel/core'')),
      estimate_processing_time = (\<lambda>p. Inr (3, 7)),
      create_job = (\<lambda>p d. Inr ''job-1''),
      update_job = (\<lambda>j n t. Inr ()),
      build_graph_from_path_async = (\<lambda>p d j. None),
      run_coroutine_threadsafe = (\<lambda>c. None),
      round2 = (\<lambda>t. t),
      duration_human = (\<lambda>t. Inr ''7s'')\<rparr>"

definition args0 :: tool_args where
  "args0 = \<lparr>arg_url = None, arg_branch = None, arg_path = None, arg_package_name = None,
            arg_language = None, arg_is_dependency = None\<rparr>"

definition url0 :: string where
  "url0 = ''https://example.com/org/myrepo.git''"

definition world_clone :: "string \<Rightarrow> exn + int \<times> string \<Rightarrow> int world" where
  "world_clone tok outcome =
     world0\<lparr>os_environ := map_of [(''GIT_TOKEN'', tok)], git_clone := (\<lambda>argv. outcome)\<rparr>"

definition argv0 :: "string \<Rightarrow> string list" where
  "argv0 tok = [''git'', ''clone'', ''--depth'', ''1'', ''--branch'', ''main'',
                ''https://'' @ tok @ ''@example.com/org/myrepo.git'', ''/workspace/myrepo'']"

definition stderr_star :: string where
  "stderr_star = ''fatal: bad credentials for https://*@example.com''"

definition stderr_tok :: string where
  "stderr_tok = ''fatal: Authentication failed for https://tok_S3cr3t@example.com/org/myrepo.git ''"

definition world_listed :: "repo list \<Rightarrow> int world" where
  "world_listed rs = world0\<lparr>list_repos_func := Inr (Some rs)\<rparr>"

definition world_failing :: "int world" where
  "world_failing =
     world0\<lparr>estimate_processing_time := (\<lambda>p. Inl (Exn OtherError ''disk error'')),
            git_clone := (\<lambda>argv. Inl (Exn TimeoutExpired ''timed out''))\<rparr>"

definition args_all :: tool_args where
  "args_all = \<lparr>arg_url = Some url0, arg_branch = None, arg_path = Some ''proj'',
               arg_package_name = Some ''requests'', arg_language = Some ''python'',
               arg_is_dependency = None\<rparr>"

definition babel_record :: repo where
  "babel_record = \<lparr>repo_path = Some ''/node_modules/@babel/core'', repo_name = Some ''core'',
                    repo_is_dependency = True\<rparr>"

definition requests_record :: repo where
  "requests_record = \<lparr>repo_path = Some ''/site-packages/requests'', repo_name = Some ''requests'',
                       repo_is_dependency = True\<rparr>"

definition proj_record :: repo where
  "proj_record = \<lparr>repo_path = Some ''./proj'', repo_name = Some ''proj'', repo_is_dependency = False\<rparr>"



text \<open>
  An entry without a \<open>"path"\<close> key. The failing worlds: every collaborator behaves
  as in \<open>world0\<close> except the one of the given stage, which raises.
\<close>

definition nopath_record :: repo where
  "nopath_record = \<lparr>repo_path = None, repo_name = Some ''x'', repo_is_dependency = False\<rparr>"

datatype stage =
  AtUrlparse | AtResolve | AtExists | AtLister | AtLocate | AtClone
| AtEstimate | AtCreate | AtUpdate | AtBuild | AtSubmit | AtFormat

definition boom :: exn where
  "boom = Exn OtherError ''boom''"

definition world_fails_at :: "stage \<Rightarrow> int world" where
  "world_fails_at s =
     \<lparr>resolve = (\<lambda>p. if s = AtResolve then Inl boom else resolve world0 p),
      path_exists = (\<lambda>p. if s = AtExists then Inl boom else path_exists world0 p),
      os_path_exists = os_path_exists world0,
      os_environ = os_environ world0,
      urlparse = (\<lambda>u. if s = AtUrlparse then Inl boom else urlparse world0 u),
      git_clone = (\<lambda>argv. if s = AtClone then Inl boom else git_clone world0 argv),
      list_repos_func = (if s = AtLister then Inl boom else list_repos_func world0),
      get_local_package_path = (\<lambda>n l. if s = AtLocate then Inl boom else get_local_package_path world0 n l),
      estimate_processing_time = (\<lambda>p. if s = AtEstimate then Inl boom else estimate_processing_time world0 p),
      create_job = (\<lambda>p d. if s = AtCreate then Inl boom else create_job world0 p d),
      update_job = (\<lambda>j n t. if s = AtUpdate then Inl boom else update_job world0 j n t),
      build_graph_from_path_async = (\<lambda>p d j. if s = AtBuild then Some boom else None),
      run_coroutine_threadsafe = (\<lambda>c. if s = AtSubmit then Some boom else None),
      round2 = round2 world0,
      duration_human = (\<lambda>t. if s = AtFormat then Inl boom else duration_human world0 t)\<rparr>"

definition code_error :: "int pydict" where
  "code_error = [(''error'', VStr ''Failed to start background processing: boom'')]"

definition package_error :: "int pydict" where
  "package_error = [(''error'', VStr (''Failed to start background processing for package ''
                       @ quoted ''requests'' @ '': boom''))]"

definition index_error :: "int pydict" where
  "index_error = [(''error'', VStr ''Failed to clone and index repository: boom'')]"

text \<open>
  A token straddles the fixed text \<open>git clone failed: \<close> when a non-empty proper
  prefix of the token is a suffix of that text and the character that follows the prefix
  in the token is no whitespace: such a token can begin in the fixed text and end in the
  stripped output.
\<close>

fun straddles_from :: "string \<Rightarrow> string \<Rightarrow> bool" where
  "straddles_from pre [] = False"
| "straddles_from pre (c # cs) =
     ((pre \<noteq> [] \<and> suffix pre ''git clone failed: '' \<and> \<not> py_isspace c)
      \<or> straddles_from (pre @ [c]) cs)"

definition straddles_prefix :: "string \<Rightarrow> bool" where
  "straddles_prefix t = straddles_from [] t"

section \<open>Facts about the Python value helpers\<close>

declare str_nat.simps [simp del]

lemmas py_int_eval = py_int_def int_literal_def int_strip_def int_isspace_def count_digits_def
  int_max_str_digits_def is_digit_def digit_val_def

lemma sublist_mid: "sublist xs (a @ b @ xs @ c)"
  using sublist_appendI [of xs "a @ b" c] by simp

lemma digit_char_of:
  assumes "n < 10"
  shows "is_digit (char_of (48 + n))" and "digit_val (char_of (48 + n)) = n"
    and "\<not> int_isspace (char_of (48 + n))" and "char_of (48 + n) \<noteq> CHR ''-''"
    and "char_of (48 + n) \<noteq> CHR ''+''"
proof -
  from assms have v: "(of_char (char_of (48 + n)) :: nat) = 48 + n" by simp
  from v assms show "is_digit (char_of (48 + n))" by (simp add: is_digit_def)
  from v show "digit_val (char_of (48 + n)) = n" by (simp add: digit_val_def)
  have ne: "\<And>c. (of_char c :: nat) \<noteq> 48 + n \<Longrightarrow> char_of (48 + n) \<noteq> c"
    using v by auto
  from assms show "\<not> int_isspace (char_of (48 + n))"
    by (auto simp: int_isspace_def dest!: arg_cong [where f = "of_char :: char \<Rightarrow> nat"] simp: v)
  from assms show "char_of (48 + n) \<noteq> CHR ''-''" by (intro ne) simp
  from assms show "char_of (48 + n) \<noteq> CHR ''+''" by (intro ne) simp
qed

lemma str_nat_nonempty: "str_nat n \<noteq> []"
  by (subst str_nat.simps) simp

lemma str_nat_digits: "c \<in> set (str_nat n) \<Longrightarrow> is_digit c"
proof (induction n arbitrary: c rule: str_nat.induct)
  case (1 n)
  show ?case
  proof (cases "n < 10")
    case True
    then have "str_nat n = [char_of (48 + n)]" by (subst str_nat.simps) simp
    with True "1.prems" show ?thesis by (simp add: digit_char_of)
  next
    case False
    then have "str_nat n = str_nat (n div 10) @ [char_of (48 + n mod 10)]"
      by (subst str_nat.simps) simp
    with "1.prems" have "c \<in> set (str_nat (n div 10)) \<or> c = char_of (48 + n mod 10)"
      by auto
    with False "1.IH" show ?thesis by (auto simp: digit_char_of)
  qed
qed

lemma count_digits_str_nat: "count_digits (str_nat n) = length (str_nat n)"
  by (simp add: count_digits_def str_nat_digits)


lemma parse_digits_str_nat:
  "parse_digits acc pd (str_nat n @ rest) = parse_digits (acc * 10 ^ length (str_nat n) + n) True rest"
proof (induction n arbitrary: acc pd rest rule: str_nat.induct)
  case (1 n)
  show ?case
  proof (cases "n < 10")
    case True
    then have "str_nat n = [char_of (48 + n)]" by (subst str_nat.simps) simp
    with True show ?thesis by (simp add: digit_char_of)
  next
    case False
    let ?d = "char_of (48 + n mod 10)"
    have m: "n mod 10 < 10" by simp
    from False have s: "str_nat n = str_nat (n div 10) @ [?d]" by (subst str_nat.simps) simp
    have "parse_digits acc pd (str_nat n @ rest) = parse_digits acc pd (str_nat (n div 10) @ (?d # rest))"
      by (simp add: s)
    also have "\<dots> = parse_digits (acc * 10 ^ length (str_nat (n div 10)) + n div 10) True (?d # rest)"
      using False "1.IH" by blast
    also have "\<dots> = parse_digits ((acc * 10 ^ length (str_nat (n div 10)) + n div 10) * 10 + n mod 10) True rest"
      using digit_char_of [OF m] by simp
    also have "(acc * 10 ^ length (str_nat (n div 10)) + n div 10) * 10 + n mod 10
        = acc * 10 ^ length (str_nat n) + n"
      by (simp add: s algebra_simps)
    finally show ?thesis .
  qed
qed

lemma parse_str_nat: "parse_digits 0 False (str_nat n) = Some n"
  using parse_digits_str_nat [of 0 False n "[]"] by simp

lemma parse_digits_bound:
  "parse_digits acc pd s = Some n \<Longrightarrow> n < (acc + 1) * 10 ^ count_digits s"
proof (induction s arbitrary: acc pd)
  case Nil
  then show ?case by (simp add: count_digits_def split: if_splits)
next
  case (Cons c cs)
  show ?case
  proof (cases "is_digit c")
    case True
    with Cons.prems have "parse_digits (acc * 10 + digit_val c) True cs = Some n" by simp
    then have a: "n < (acc * 10 + digit_val c + 1) * 10 ^ count_digits cs" by (rule Cons.IH)
    from True have "digit_val c \<le> 9" unfolding is_digit_def digit_val_def by linarith
    then have b: "(acc * 10 + digit_val c + 1) * 10 ^ count_digits cs \<le> ((acc + 1) * 10) * 10 ^ count_digits cs"
      by (intro mult_le_mono1) simp
    from a b have "n < ((acc + 1) * 10) * 10 ^ count_digits cs" by (rule less_le_trans)
    moreover from True have "count_digits (c # cs) = Suc (count_digits cs)" by (simp add: count_digits_def)
    moreover have "((acc + 1) * 10) * 10 ^ count_digits cs = (acc + 1) * 10 ^ Suc (count_digits cs)"
      by (simp only: power_Suc mult.assoc)
    ultimately show ?thesis by (simp only:)
  next
    case False
    with Cons.prems have "parse_digits acc False cs = Some n" by (simp split: if_splits)
    then have "n < (acc + 1) * 10 ^ count_digits cs" by (rule Cons.IH)
    with False show ?thesis by (simp add: count_digits_def)
  qed
qed

lemma length_str_nat: "n < 10 ^ k \<Longrightarrow> length (str_nat n) \<le> max 1 k"
proof (induction n arbitrary: k rule: str_nat.induct)
  case (1 n)
  show ?case
  proof (cases "n < 10")
    case True
    then show ?thesis by (subst str_nat.simps) simp
  next
    case False
    with "1.prems" obtain j where k: "k = Suc j" by (cases k) auto
    with "1.prems" have "n div 10 < 10 ^ j" by (simp add: less_mult_imp_div_less mult.commute)
    with False have "length (str_nat (n div 10)) \<le> max 1 j" using "1.IH" by blast
    moreover from False "1.prems" k have "j \<noteq> 0" by (cases j) auto
    ultimately show ?thesis using False k by (subst str_nat.simps) simp
  qed
qed

lemma int_strip_id:
  assumes "s \<noteq> []" and "\<not> int_isspace (hd s)" and "\<not> int_isspace (last s)"
  shows "int_strip s = s"
proof -
  from assms(1,2) have 1: "dropWhile int_isspace s = s" by (cases s) simp_all
  from assms(1,3) have 2: "dropWhile int_isspace (rev s) = rev s"
    by (cases s rule: rev_cases) simp_all
  from 1 2 show ?thesis by (simp add: int_strip_def)
qed

lemma int_strip_str_nat: "int_strip (str_nat n) = str_nat n" and int_strip_neg: "int_strip (CHR ''-'' # str_nat n) = CHR ''-'' # str_nat n"
proof -
  have d: "\<And>c. is_digit c \<Longrightarrow> \<not> int_isspace c"
    by (auto simp: is_digit_def int_isspace_def)
  have h: "is_digit (hd (str_nat n))" and l: "is_digit (last (str_nat n))"
    using str_nat_nonempty [of n] str_nat_digits [of _ n] by simp_all
  show "int_strip (str_nat n) = str_nat n"
    using str_nat_nonempty h l d by (intro int_strip_id) auto
  show "int_strip (CHR ''-'' # str_nat n) = CHR ''-'' # str_nat n"
    using str_nat_nonempty [of n] l d by (intro int_strip_id) (auto simp: int_isspace_def)
qed

lemma str_nat_first: "hd (str_nat n) \<noteq> CHR ''-'' \<and> hd (str_nat n) \<noteq> CHR ''+''"
proof -
  have "is_digit (hd (str_nat n))" using str_nat_nonempty [of n] str_nat_digits [of _ n] by simp
  then show ?thesis by (auto simp: is_digit_def)
qed

lemma int_literal_str_nat: "int_literal (str_nat n) = Some (False, n, length (str_nat n))"
proof -
  obtain c cs where s: "str_nat n = c # cs" using str_nat_nonempty [of n] by (cases "str_nat n") auto
  with str_nat_first [of n] have c: "c \<noteq> CHR ''-''" "c \<noteq> CHR ''+''" by simp_all
  have i: "int_strip (str_nat n) = c # cs" using s int_strip_str_nat [of n] by simp
  have "int_literal (str_nat n)
      = map_option (\<lambda>n. (False, n, count_digits (c # cs))) (parse_digits 0 False (c # cs))"
    using c by (simp add: int_literal_def i del: parse_digits.simps)
  also have "\<dots> = Some (False, n, length (str_nat n))"
    using parse_str_nat [of n] count_digits_str_nat [of n] unfolding s by simp
  finally show ?thesis .
qed

lemma int_literal_neg: "int_literal (CHR ''-'' # str_nat n) = Some (True, n, length (str_nat n))"
  using parse_str_nat [of n] count_digits_str_nat [of n]
  by (simp add: int_literal_def int_strip_neg)

lemma int_literal_digits:
  assumes "int_literal s = Some (neg, n, d)"
  shows "length (str_nat n) \<le> max 1 d"
proof -
  from assms obtain body where "parse_digits 0 False body = Some n" and "d = count_digits body"
    by (auto simp: int_literal_def simp del: parse_digits.simps split: list.splits if_splits)
  then have "n < 10 ^ d" using parse_digits_bound [of 0 False body n] by simp
  then show ?thesis by (rule length_str_nat)
qed

text \<open>The decimal text of a value that \<open>int()\<close> produced reads back as that value.\<close>

lemma py_int_py_str_int:
  assumes "py_int s = Some p"
  shows "py_int (py_str_int p) = Some p"
proof -
  from assms obtain neg n d where l: "int_literal s = Some (neg, n, d)"
    and d: "d \<le> int_max_str_digits" and p: "p = (if neg then - int n else int n)"
    by (auto simp: py_int_def split: option.splits if_splits)
  from l have "length (str_nat n) \<le> max 1 d" by (rule int_literal_digits)
  with d have len: "length (str_nat n) \<le> int_max_str_digits" by (simp add: int_max_str_digits_def)
  show ?thesis
  proof (cases "p < 0")
    case True
    with p have "nat (- p) = n" by (simp split: if_splits)
    with True len p show ?thesis by (simp add: py_str_int_def py_int_def int_literal_neg split: if_splits)
  next
    case False
    with p have "nat p = n" by (simp split: if_splits)
    with False len p show ?thesis by (simp add: py_str_int_def py_int_def int_literal_str_nat split: if_splits)
  qed
qed


lemma str_70000: "py_str_int 70000 = ''70000''"
  by (simp add: py_str_int_def str_nat.simps char_of_eq_iff)

lemma str_0: "py_str_int 0 = ''0''"
  by (simp add: py_str_int_def str_nat.simps char_of_eq_iff)

section \<open>Configuration validation\<close>

text \<open>
  C6. \<open>validate_config\<close> is a function of the environment alone (it has no other
  argument and returns no effect). With a non-empty host and a port string that
  \<open>int()\<close> reads as a number between 1 and 65535 it returns \<open>(True, None)\<close>; with a
  port string that \<open>int()\<close> rejects it returns \<open>False\<close> and a message containing
  that string; with a port read as a number outside the range it returns \<open>False\<close> and
  a message containing the number in decimal, a text that \<open>int()\<close> reads back as the
  number; with the host unset or empty it returns \<open>False\<close> and a message naming
  \<open>FALKORDB_HOST\<close>.
\<close>

theorem validate_config_spec:
  fixes env :: environ
  defines "port_str \<equiv> getenv_default env ''FALKORDB_PORT'' ''6379''"
  shows
  "(\<forall>h p. env ''FALKORDB_HOST'' = Some h \<and> h \<noteq> [] \<and> py_int port_str = Some p \<and> 1 \<le> p \<and> p \<le> 65535
       \<longrightarrow> validate_config env = (True, None))
   \<and> (\<forall>h. env ''FALKORDB_HOST'' = Some h \<and> h \<noteq> [] \<and> py_int port_str = None
       \<longrightarrow> (\<exists>m. validate_config env = (False, Some m) \<and> sublist port_str m))
   \<and> (\<forall>h p. env ''FALKORDB_HOST'' = Some h \<and> h \<noteq> [] \<and> py_int port_str = Some p \<and> (p < 1 \<or> 65535 < p)
       \<longrightarrow> (\<exists>m. validate_config env = (False, Some m) \<and> sublist (py_str_int p) m
              \<and> py_int (py_str_int p) = Some p))
   \<and> (env ''FALKORDB_HOST'' = None \<or> env ''FALKORDB_HOST'' = Some []
       \<longrightarrow> (\<exists>m. validate_config env = (False, Some m) \<and> sublist ''FALKORDB_HOST'' m))"
proof (intro conjI allI impI)
  fix h p
  assume "env ''FALKORDB_HOST'' = Some h \<and> h \<noteq> [] \<and> py_int port_str = Some p \<and> 1 \<le> p \<and> p \<le> 65535"
  then show "validate_config env = (True, None)"
    by (simp add: validate_config_def Let_def port_str_def)
next
  fix h
  assume a: "env ''FALKORDB_HOST'' = Some h \<and> h \<noteq> [] \<and> py_int port_str = None"
  then have "validate_config env =
      (False, Some (''FALKORDB_PORT must be a number, got '' @ [sq] @ port_str @ [sq] @ ''.''))"
    by (simp add: validate_config_def Let_def port_str_def del: append.simps)
  then show "\<exists>m. validate_config env = (False, Some m) \<and> sublist port_str m"
    using sublist_mid by blast
next
  fix h p
  assume a: "env ''FALKORDB_HOST'' = Some h \<and> h \<noteq> [] \<and> py_int port_str = Some p \<and> (p < 1 \<or> 65535 < p)"
  then have "validate_config env =
      (False, Some (''FALKORDB_PORT must be between 1 and 65535, got '' @ py_str_int p @ ''.''))"
    by (auto simp add: validate_config_def Let_def port_str_def simp del: append.simps)
  moreover from a have "py_int (py_str_int p) = Some p" using py_int_py_str_int by blast
  ultimately show "\<exists>m. validate_config env = (False, Some m) \<and> sublist (py_str_int p) m
              \<and> py_int (py_str_int p) = Some p"
    using sublist_appendI by blast
next
  assume "env ''FALKORDB_HOST'' = None \<or> env ''FALKORDB_HOST'' = Some []"
  then have "validate_config env = (False, Some (''FALKORDB_HOST'' @ '' environment variable is not set.''))"
    by (auto simp add: validate_config_def Let_def)
  then show "\<exists>m. validate_config env = (False, Some m) \<and> sublist ''FALKORDB_HOST'' m"
    using sublist_append_rightI by blast
qed

theorem validate_config_spec_witness:
  "validate_config (map_of [(''FALKORDB_HOST'', ''db.example''), (''FALKORDB_PORT'', ''6380'')]) = (True, None)
   \<and> validate_config (map_of [(''FALKORDB_HOST'', ''db.example''),
        (''FALKORDB_PORT'', [CHR 0x09] @ ''+6_380 '')]) = (True, None)
   \<and> (\<exists>m. validate_config (map_of [(''FALKORDB_HOST'', ''db.example''), (''FALKORDB_PORT'', ''abc'')]) = (False, Some m)
          \<and> sublist ''abc'' m)
   \<and> (\<exists>m. validate_config (map_of [(''FALKORDB_HOST'', ''db.example''),
          (''FALKORDB_PORT'', [CHR 0x1C] @ ''80'')]) = (False, Some m)
          \<and> sublist ([CHR 0x1C] @ ''80'') m)
   \<and> (\<exists>m. validate_config (map_of [(''FALKORDB_HOST'', ''db.example''), (''FALKORDB_PORT'', ''70000'')]) = (False, Some m)
          \<and> sublist ''70000'' m)
   \<and> (\<exists>m. validate_config (map_of [(''FALKORDB_HOST'', ''db.example''), (''FALKORDB_PORT'', ''0'')]) = (False, Some m)
          \<and> sublist ''0'' m)
   \<and> (\<exists>m. validate_config (map_of [(''FALKORDB_PORT'', ''6380'')]) = (False, Some m)
          \<and> sublist ''FALKORDB_HOST'' m)"
proof -
  let ?A = "map_of [(''FALKORDB_HOST'', ''db.example''), (''FALKORDB_PORT'', ''6380'')] :: environ"
  let ?A2 = "map_of [(''FALKORDB_HOST'', ''db.example''), (''FALKORDB_PORT'', [CHR 0x09] @ ''+6_380 '')] :: environ"
  let ?B = "map_of [(''FALKORDB_HOST'', ''db.example''), (''FALKORDB_PORT'', ''abc'')] :: environ"
  let ?B2 = "map_of [(''FALKORDB_HOST'', ''db.example''), (''FALKORDB_PORT'', [CHR 0x1C] @ ''80'')] :: environ"
  let ?C = "map_of [(''FALKORDB_HOST'', ''db.example''), (''FALKORDB_PORT'', ''70000'')] :: environ"
  let ?C2 = "map_of [(''FALKORDB_HOST'', ''db.example''), (''FALKORDB_PORT'', ''0'')] :: environ"
  let ?D = "map_of [(''FALKORDB_PORT'', ''6380'')] :: environ"
  have a: "?A ''FALKORDB_HOST'' = Some ''db.example'' \<and> ''db.example'' \<noteq> []
      \<and> py_int (getenv_default ?A ''FALKORDB_PORT'' ''6379'') = Some 6380 \<and> (1::int) \<le> 6380 \<and> (6380::int) \<le> 65535"
    by (simp add: getenv_default_def py_int_eval)
  have a2: "?A2 ''FALKORDB_HOST'' = Some ''db.example'' \<and> ''db.example'' \<noteq> []
      \<and> py_int (getenv_default ?A2 ''FALKORDB_PORT'' ''6379'') = Some 6380 \<and> (1::int) \<le> 6380 \<and> (6380::int) \<le> 65535"
    by (simp add: getenv_default_def py_int_eval)
  have b: "?B ''FALKORDB_HOST'' = Some ''db.example'' \<and> ''db.example'' \<noteq> []
      \<and> py_int (getenv_default ?B ''FALKORDB_PORT'' ''6379'') = None"
    by (simp add: getenv_default_def py_int_eval)
  have b': "getenv_default ?B ''FALKORDB_PORT'' ''6379'' = ''abc''"
    by (simp add: getenv_default_def)
  have b2: "?B2 ''FALKORDB_HOST'' = Some ''db.example'' \<and> ''db.example'' \<noteq> []
      \<and> py_int (getenv_default ?B2 ''FALKORDB_PORT'' ''6379'') = None"
    by (simp add: getenv_default_def py_int_eval)
  have b2': "getenv_default ?B2 ''FALKORDB_PORT'' ''6379'' = [CHR 0x1C] @ ''80''"
    by (simp add: getenv_default_def)
  have c: "?C ''FALKORDB_HOST'' = Some ''db.example'' \<and> ''db.example'' \<noteq> []
      \<and> py_int (getenv_default ?C ''FALKORDB_PORT'' ''6379'') = Some 70000 \<and> ((70000::int) < 1 \<or> (65535::int) < 70000)"
    by (simp add: getenv_default_def py_int_eval)
  have c2: "?C2 ''FALKORDB_HOST'' = Some ''db.example'' \<and> ''db.example'' \<noteq> []
      \<and> py_int (getenv_default ?C2 ''FALKORDB_PORT'' ''6379'') = Some 0 \<and> ((0::int) < 1 \<or> (65535::int) < 0)"
    by (simp add: getenv_default_def py_int_eval)
  have d: "?D ''FALKORDB_HOST'' = None \<or> ?D ''FALKORDB_HOST'' = Some []"
    by simp
  note t = validate_config_spec
  from t [of ?A] a have 1: "validate_config ?A = (True, None)" by blast
  from t [of ?A2] a2 have 2: "validate_config ?A2 = (True, None)" by blast
  from t [of ?B] b have "\<exists>m. validate_config ?B = (False, Some m)
          \<and> sublist (getenv_default ?B ''FALKORDB_PORT'' ''6379'') m" by blast
  then have 3: "\<exists>m. validate_config ?B = (False, Some m) \<and> sublist ''abc'' m"
    unfolding b' .
  from t [of ?B2] b2 have "\<exists>m. validate_config ?B2 = (False, Some m)
          \<and> sublist (getenv_default ?B2 ''FALKORDB_PORT'' ''6379'') m" by blast
  then have 4: "\<exists>m. validate_config ?B2 = (False, Some m) \<and> sublist ([CHR 0x1C] @ ''80'') m"
    unfolding b2' .
  from t [of ?C] c have "\<exists>m. validate_config ?C = (False, Some m) \<and> sublist (py_str_int 70000) m" by blast
  then have 5: "\<exists>m. validate_config ?C = (False, Some m) \<and> sublist ''70000'' m"
    unfolding str_70000 .
  from t [of ?C2] c2 have "\<exists>m. validate_config ?C2 = (False, Some m) \<and> sublist (py_str_int 0) m" by blast
  then have 6: "\<exists>m. validate_config ?C2 = (False, Some m) \<and> sublist ''0'' m"
    unfolding str_0 .
  from t [of ?D] d have 7: "\<exists>m. validate_config ?D = (False, Some m) \<and> sublist ''FALKORDB_HOST'' m" by blast
  from 1 2 3 4 5 6 7 show ?thesis by blast
qed

section \<open>The connection manager\<close>

text \<open>
  C8. \<open>is_connected\<close> never raises: its result is always a boolean. It is
  \<open>False\<close> when no graph is cached, \<open>False\<close> when the liveness query raises, and
  \<open>True\<close> exactly when a graph is cached and the liveness query succeeds.
\<close>

theorem is_connected_spec:
  "(\<exists>b. fst (is_connected cl m) = Inr b)
   \<and> (graph m = None \<longrightarrow> fst (is_connected cl m) = Inr False)
   \<and> (\<forall>g e. graph m = Some g \<and> query cl g ''RETURN 1'' = Inl e \<longrightarrow> fst (is_connected cl m) = Inr False)
   \<and> (fst (is_connected cl m) = Inr True \<longleftrightarrow> (\<exists>g. graph m = Some g \<and> query cl g ''RETURN 1'' = Inr ()))"
  by (auto simp: is_connected_def split: option.splits sum.splits)

theorem is_connected_spec_witness:
  "fst (is_connected client_ok mgr0) = Inr False
   \<and> fst (is_connected client_probe_fails (mgr0\<lparr>graph := Some 2\<rparr>)) = Inr False
   \<and> fst (is_connected client_ok (mgr0\<lparr>graph := Some 2\<rparr>)) = Inr True"
proof -
  have a: "graph mgr0 = None" by (simp add: mgr0_def)
  have b: "graph (mgr0\<lparr>graph := Some 2\<rparr>) = Some 2
      \<and> query client_probe_fails 2 ''RETURN 1'' = Inl (Exn OtherError ''connection reset'')"
    by (simp add: client_probe_fails_def)
  have c: "\<exists>g. graph (mgr0\<lparr>graph := Some 2\<rparr>) = Some g \<and> query client_ok g ''RETURN 1'' = Inr ()"
    by (simp add: client_ok_def)
  from is_connected_spec [of client_ok mgr0] a
  have 1: "fst (is_connected client_ok mgr0) = Inr False" by blast
  from is_connected_spec [of client_probe_fails "mgr0\<lparr>graph := Some 2\<rparr>"] b
  have 2: "fst (is_connected client_probe_fails (mgr0\<lparr>graph := Some 2\<rparr>)) = Inr False" by blast
  from is_connected_spec [of client_ok "mgr0\<lparr>graph := Some 2\<rparr>"] c
  have 3: "fst (is_connected client_ok (mgr0\<lparr>graph := Some 2\<rparr>)) = Inr True" by blast
  from 1 2 3 show ?thesis by blast
qed


text \<open>
  C1. The claim says that a failed \<open>get_driver\<close> leaves \<open>_driver\<close> and \<open>_graph\<close>
  unset, so that the next call connects again. The code assigns \<open>_driver\<close> before
  \<open>select_graph\<close> and \<open>_graph\<close> before the liveness query and never clears them:
  when \<open>select_graph\<close> raises, the exception propagates, the client stays cached, and
  the next call makes no connection attempt and wraps \<open>None\<close>; when the liveness
  query raises, client and graph both stay cached and the next call wraps the unverified
  graph.
\<close>

theorem get_driver_keeps_failed_attempt:
  "fst (get_driver client_no_graph mgr0) = Inl (Exn OtherError ''graph unavailable'')
   \<and> fst (snd (get_driver client_no_graph mgr0)) = mgr0\<lparr>driver := Some 1\<rparr>
   \<and> get_driver client_ok (mgr0\<lparr>driver := Some 1\<rparr>)
       = (Inr (FalkorDBDriverWrapper None), mgr0\<lparr>driver := Some 1\<rparr>, [])
   \<and> fst (get_driver client_probe_fails mgr0) = Inl (Exn OtherError ''connection reset'')
   \<and> fst (snd (get_driver client_probe_fails mgr0)) = mgr0\<lparr>driver := Some 1, graph := Some 2\<rparr>
   \<and> get_driver client_ok (mgr0\<lparr>driver := Some 1, graph := Some 2\<rparr>)
       = (Inr (FalkorDBDriverWrapper (Some 2)), mgr0\<lparr>driver := Some 1, graph := Some 2\<rparr>, [])"
  by (simp add: get_driver_def connect_def client_no_graph_def client_probe_fails_def client_ok_def
      mgr0_def cfg0_def Let_def)


text \<open>
  What does hold of a failed attempt: the exception of the \<open>try\<close> body reaches the
  caller (an \<open>ImportError\<close> as the \<open>ValueError\<close> of the missing client), and a
  failing constructor leaves the manager as it was.
\<close>

lemma get_driver_propagates:
  assumes "driver m = None" and "get_driver cl m = (Inl e, m', evs)"
  shows "(\<exists>e0 evs0. connect cl m = (Inl e0, m', evs0) \<and>
           (if exn_kind_of e0 = ImportError then e = Exn ValueError ''FalkorDB client missing.'' else e = e0))"
  using assms by (auto simp: get_driver_def split: prod.splits sum.splits if_splits)

lemma constructor_failure_leaves_nothing:
  assumes "driver m = None" and "attrs m = Ready c"
    and "import_falkordb cl = None"
    and "FalkorDB cl (build_kwargs (host c) (port c) (password c) (username c) (ssl c)) = Inl e"
  shows "fst (snd (get_driver cl m)) = m"
  using assms by (auto simp: get_driver_def connect_def Let_def split: prod.splits sum.splits if_splits)


text \<open>
  C10. Constructing the manager with \<open>FALKORDB_HOST\<close> unset does not raise on that
  account: with a port that \<open>int\<close> accepts the instance is returned with host
  \<open>localhost\<close>. With \<open>FALKORDB_PORT\<close> set to a string \<open>int\<close> rejects,
  construction of a not yet initialised singleton raises \<open>ValueError\<close>. After a
  construction that returned, every later construction returns the same instance and
  leaves the class state unchanged, whatever the environment is then.
\<close>

theorem construct_spec:
  fixes env :: environ and st :: "('d, 'g) class_state"
  shows
  "(\<forall>p. env ''FALKORDB_HOST'' = None \<and> py_int (getenv_default env ''FALKORDB_PORT'' ''6379'') = Some p
        \<and> \<not> initialized st
      \<longrightarrow> (\<exists>m st' c. construct env st = (Inr m, st') \<and> attrs m = Ready c \<and> host c = ''localhost''
             \<and> instance_of st' = Some m))
   \<and> (\<forall>s. env ''FALKORDB_PORT'' = Some s \<and> py_int s = None \<and> \<not> initialized st
      \<longrightarrow> (\<exists>msg st'. construct env st = (Inl (Exn ValueError msg), st')))
   \<and> (\<forall>env' m st'. construct env st = (Inr m, st')
      \<longrightarrow> construct env' st' = (Inr m, st'))"
proof (intro conjI allI impI)
  fix p
  assume "env ''FALKORDB_HOST'' = None \<and> py_int (getenv_default env ''FALKORDB_PORT'' ''6379'') = Some p
        \<and> \<not> initialized st"
  then show "\<exists>m st' c. construct env st = (Inr m, st') \<and> attrs m = Ready c \<and> host c = ''localhost''
             \<and> instance_of st' = Some m"
    by (auto simp: construct_def new_instance_def init_attrs_def initialized_def Let_def getenv_default_def
        split: option.splits attrs.splits)
next
  fix s
  assume "env ''FALKORDB_PORT'' = Some s \<and> py_int s = None \<and> \<not> initialized st"
  then show "\<exists>msg st'. construct env st = (Inl (Exn ValueError msg), st')"
    by (auto simp: construct_def new_instance_def init_attrs_def initialized_def Let_def getenv_default_def
        split: option.splits attrs.splits)
next
  fix env' :: environ and m :: "('d, 'g) manager" and st'
  assume a: "construct env st = (Inr m, st')"
  then obtain c where c: "attrs m = Ready c" and i: "instance_of st' = Some m"
    by (auto simp: construct_def new_instance_def init_attrs_def Let_def
        split: option.splits attrs.splits sum.splits prod.splits)
  then show "construct env' st' = (Inr m, st')"
    by (simp add: construct_def new_instance_def init_attrs_def Let_def)
qed


theorem construct_spec_witness:
  "(\<exists>m st'. construct Map.empty (fresh_class :: (nat, nat) class_state) = (Inr m, st')
        \<and> (\<exists>c. attrs m = Ready c \<and> host c = ''localhost'')
        \<and> construct (map_of [(''FALKORDB_HOST'', ''other.example''), (''FALKORDB_PORT'', ''abc'')]) st' = (Inr m, st'))
   \<and> (\<exists>msg st'. construct (map_of [(''FALKORDB_PORT'', ''abc'')]) (fresh_class :: (nat, nat) class_state)
         = (Inl (Exn ValueError msg), st'))
   \<and> (\<exists>msg st'. construct (map_of [(''FALKORDB_PORT'', [CHR 0x1F] @ ''80'')]) (fresh_class :: (nat, nat) class_state)
         = (Inl (Exn ValueError msg), st'))"
proof -
  let ?E = "Map.empty :: environ"
  let ?B = "map_of [(''FALKORDB_PORT'', ''abc'')] :: environ"
  let ?B2 = "map_of [(''FALKORDB_PORT'', [CHR 0x1F] @ ''80'')] :: environ"
  let ?F = "fresh_class :: (nat, nat) class_state"
  have a: "?E ''FALKORDB_HOST'' = None \<and> py_int (getenv_default ?E ''FALKORDB_PORT'' ''6379'') = Some 6379
      \<and> \<not> initialized ?F"
    by (simp add: getenv_default_def py_int_eval initialized_def fresh_class_def)
  have b: "?B ''FALKORDB_PORT'' = Some ''abc'' \<and> py_int ''abc'' = None \<and> \<not> initialized ?F"
    by (simp add: py_int_eval initialized_def fresh_class_def)
  have b2: "?B2 ''FALKORDB_PORT'' = Some ([CHR 0x1F] @ ''80'') \<and> py_int ([CHR 0x1F] @ ''80'') = None \<and> \<not> initialized ?F"
    by (simp add: py_int_eval initialized_def fresh_class_def)
  from construct_spec [of ?E ?F] a
  obtain m st' c where 1: "construct ?E ?F = (Inr m, st')" "attrs m = Ready c" "host c = ''localhost''"
    by blast
  from construct_spec [of ?E ?F] 1(1)
  have 2: "construct (map_of [(''FALKORDB_HOST'', ''other.example''), (''FALKORDB_PORT'', ''abc'')]) st' = (Inr m, st')"
    by blast
  from construct_spec [of ?B ?F] b
  have 3: "\<exists>msg st'. construct ?B ?F = (Inl (Exn ValueError msg), st')" by blast
  from construct_spec [of ?B2 ?F] b2
  have 4: "\<exists>msg st'. construct ?B2 ?F = (Inl (Exn ValueError msg), st')" by blast
  from 1 2 3 4 show ?thesis by blast
qed


text \<open>Facts about the constructor call of \<open>get_driver\<close>.\<close>

lemma constructor_calls_append [simp]:
  "constructor_calls (xs @ ys) = constructor_calls xs @ constructor_calls ys"
  by (induction xs rule: constructor_calls.induct) auto

lemma connect_constructor_calls:
  assumes "attrs m = Ready c" and "import_falkordb cl = None"
  shows "constructor_calls (snd (snd (connect cl m)))
         = [build_kwargs (host c) (port c) (password c) (username c) (ssl c)]"
  using assms by (simp add: connect_def Let_def split: sum.splits)

lemma get_driver_success_events:
  assumes "driver m = None" and "get_driver cl m = (Inr wr, m', evs)"
  shows "import_falkordb cl = None \<and> evs = snd (snd (connect cl m))"
  using assms
  by (auto simp: get_driver_def connect_def split: prod.splits sum.splits option.splits if_splits)


lemma build_kwargs_keys:
  "map fst (build_kwargs h p pw un s) = [''host'', ''port'']
                 @ (if truthy pw then [''password''] else [])
                 @ (if truthy un then [''username''] else [])
                 @ (if s then [''ssl''] else [])"
  by (simp add: build_kwargs_def truthy_def split: option.splits)

lemma build_kwargs_values:
  "map_of (build_kwargs h p pw un s) ''host'' = Some (KStr h)"
  "map_of (build_kwargs h p pw un s) ''port'' = Some (KInt p)"
  "map_of (build_kwargs h p pw un s) ''password'' = (if truthy pw then Some (KStr (py_str_opt pw)) else None)"
  "map_of (build_kwargs h p pw un s) ''username'' = (if truthy un then Some (KStr (py_str_opt un)) else None)"
  "map_of (build_kwargs h p pw un s) ''ssl'' = (if s then Some (KBool True) else None)"
  by (simp_all add: build_kwargs_def truthy_def py_str_opt_def split: option.splits)

text \<open>
  C7. A \<open>get_driver\<close> that connects (no cached client, initialised instance,
  successful return) calls the client constructor once, with a dictionary whose keys are
  \<open>host\<close> and \<open>port\<close> followed by exactly those of \<open>password\<close>, \<open>username\<close>
  and \<open>ssl\<close> whose field is truthy; host, port, password and username carry the
  configured values and \<open>ssl\<close> carries \<open>True\<close>; a key whose field is unset is absent.
  A manager constructed from an environment that sets only \<open>FALKORDB_HOST\<close> makes the
  call with exactly \<open>host\<close> and \<open>port = 6379\<close>.
\<close>

theorem get_driver_kwargs:
  fixes cl :: "('d, 'g) client" and m :: "('d, 'g) manager"
  shows
  "(\<forall>c wr m' evs. attrs m = Ready c \<and> driver m = None \<and> get_driver cl m = (Inr wr, m', evs)
      \<longrightarrow> (\<exists>kw. constructor_calls evs = [kw]
            \<and> map fst kw = [''host'', ''port'']
                 @ (if truthy (password c) then [''password''] else [])
                 @ (if truthy (username c) then [''username''] else [])
                 @ (if ssl c then [''ssl''] else [])
            \<and> map_of kw ''host'' = Some (KStr (host c))
            \<and> map_of kw ''port'' = Some (KInt (port c))
            \<and> map_of kw ''password'' = (if truthy (password c) then Some (KStr (py_str_opt (password c))) else None)
            \<and> map_of kw ''username'' = (if truthy (username c) then Some (KStr (py_str_opt (username c))) else None)
            \<and> map_of kw ''ssl'' = (if ssl c then Some (KBool True) else None)))
   \<and> (\<forall>env h m0 st' wr m' evs.
        env ''FALKORDB_HOST'' = Some h \<and> env ''FALKORDB_PORT'' = None \<and> env ''FALKORDB_PASSWORD'' = None
        \<and> env ''FALKORDB_USERNAME'' = None \<and> env ''FALKORDB_SSL'' = None
        \<and> construct env (fresh_class :: ('d, 'g) class_state) = (Inr m0, st')
        \<and> get_driver cl m0 = (Inr wr, m', evs)
      \<longrightarrow> constructor_calls evs = [[(''host'', KStr h), (''port'', KInt 6379)]])"
proof (intro conjI allI impI)
  fix c wr m' evs
  assume a: "attrs m = Ready c \<and> driver m = None \<and> get_driver cl m = (Inr wr, m', evs)"
  let ?kw = "build_kwargs (host c) (port c) (password c) (username c) (ssl c)"
  from a have "import_falkordb cl = None \<and> evs = snd (snd (connect cl m))"
    using get_driver_success_events by blast
  with a have calls: "constructor_calls evs = [?kw]"
    using connect_constructor_calls by blast
  show "\<exists>kw. constructor_calls evs = [kw]
            \<and> map fst kw = [''host'', ''port'']
                 @ (if truthy (password c) then [''password''] else [])
                 @ (if truthy (username c) then [''username''] else [])
                 @ (if ssl c then [''ssl''] else [])
            \<and> map_of kw ''host'' = Some (KStr (host c))
            \<and> map_of kw ''port'' = Some (KInt (port c))
            \<and> map_of kw ''password'' = (if truthy (password c) then Some (KStr (py_str_opt (password c))) else None)
            \<and> map_of kw ''username'' = (if truthy (username c) then Some (KStr (py_str_opt (username c))) else None)
            \<and> map_of kw ''ssl'' = (if ssl c then Some (KBool True) else None)"
    apply (rule exI [of _ ?kw])
    apply (intro conjI)
          apply (rule calls)
         apply (rule build_kwargs_keys)
        apply (rule build_kwargs_values)+
    done
next
  fix env :: environ and h and m0 :: "('d, 'g) manager" and st' wr m' evs
  assume a: "env ''FALKORDB_HOST'' = Some h \<and> env ''FALKORDB_PORT'' = None \<and> env ''FALKORDB_PASSWORD'' = None
        \<and> env ''FALKORDB_USERNAME'' = None \<and> env ''FALKORDB_SSL'' = None
        \<and> construct env (fresh_class :: ('d, 'g) class_state) = (Inr m0, st')
        \<and> get_driver cl m0 = (Inr wr, m', evs)"
  have p: "py_int ''6379'' = Some 6379" by (simp add: py_int_eval)
  have l: "py_lower ''false'' \<notin> set [''true'', ''1'', ''yes'']" by (simp add: py_lower_def py_lower_char_def)
  from a have ia: "init_attrs env Uninit = (Inr (), Ready \<lparr>host = h, port = 6379, password = None, username = None,
        ssl = False, graph_name = getenv_default env ''FALKORDB_GRAPH_NAME'' ''codegraph''\<rparr>, True)"
    using p l by (simp add: init_attrs_def Let_def getenv_default_def getenv_or_none_def)
  from a have "construct env (fresh_class :: ('d, 'g) class_state) = (Inr m0, st')" by blast
  then have m0: "m0 = \<lparr>attrs = Ready \<lparr>host = h, port = 6379, password = None, username = None,
        ssl = False, graph_name = getenv_default env ''FALKORDB_GRAPH_NAME'' ''codegraph''\<rparr>,
        driver = None, graph = None\<rparr>"
    by (simp add: construct_def new_instance_def fresh_class_def Let_def ia)
  from a have "import_falkordb cl = None \<and> evs = snd (snd (connect cl m0))"
    using get_driver_success_events [of m0 cl wr m' evs] by (simp add: m0)
  then show "constructor_calls evs = [[(''host'', KStr h), (''port'', KInt 6379)]]"
    using connect_constructor_calls [of m0 _ cl] by (simp add: m0 build_kwargs_def)
qed

theorem get_driver_kwargs_witness:
  "constructor_calls (snd (snd (get_driver client_ok mgr0))) = [[(''host'', KStr ''db.example''), (''port'', KInt 6379)]]
   \<and> (\<exists>kw. constructor_calls (snd (snd (get_driver client_ok
          (mgr0\<lparr>attrs := Ready (cfg0\<lparr>password := Some ''pass'', ssl := True\<rparr>)\<rparr>)))) = [kw]
        \<and> map fst kw = [''host'', ''port'', ''password'', ''ssl'']
        \<and> map_of kw ''password'' = Some (KStr ''pass'')
        \<and> map_of kw ''ssl'' = Some (KBool True)
        \<and> map_of kw ''username'' = None)"
proof -
  let ?env = "map_of [(''FALKORDB_HOST'', ''db.example'')] :: environ"
  have p: "py_int ''6379'' = Some 6379" by (simp add: py_int_eval)
  have l: "py_lower ''false'' \<notin> set [''true'', ''1'', ''yes'']" by (simp add: py_lower_def py_lower_char_def)
  have c: "construct ?env (fresh_class :: (nat, nat) class_state)
      = (Inr mgr0, \<lparr>instance_of = Some mgr0, atexit_hooks = 1\<rparr>)"
    using p l by (simp add: construct_def new_instance_def fresh_class_def Let_def init_attrs_def
        getenv_default_def getenv_or_none_def mgr0_def cfg0_def)
  obtain wr m' evs where g: "get_driver client_ok mgr0 = (Inr wr, m', evs)"
    by (simp add: get_driver_def connect_def client_ok_def mgr0_def cfg0_def Let_def)
  have e: "?env ''FALKORDB_HOST'' = Some ''db.example'' \<and> ?env ''FALKORDB_PORT'' = None
      \<and> ?env ''FALKORDB_PASSWORD'' = None \<and> ?env ''FALKORDB_USERNAME'' = None \<and> ?env ''FALKORDB_SSL'' = None"
    by simp
  from get_driver_kwargs [of mgr0 client_ok] e c g
  have 1: "constructor_calls evs = [[(''host'', KStr ''db.example''), (''port'', KInt 6379)]]"
    by blast
  let ?c2 = "cfg0\<lparr>password := Some ''pass'', ssl := True\<rparr>"
  let ?m2 = "mgr0\<lparr>attrs := Ready ?c2\<rparr>"
  obtain wr2 m2' evs2 where g2: "get_driver client_ok ?m2 = (Inr wr2, m2', evs2)"
    by (simp add: get_driver_def connect_def client_ok_def mgr0_def cfg0_def Let_def)
  have h2: "attrs ?m2 = Ready ?c2 \<and> driver ?m2 = None" by (simp add: mgr0_def)
  from get_driver_kwargs [of ?m2 client_ok] h2 g2
  obtain kw where k: "constructor_calls evs2 = [kw]"
     "map fst kw = [''host'', ''port'']
                 @ (if truthy (password ?c2) then [''password''] else [])
                 @ (if truthy (username ?c2) then [''username''] else [])
                 @ (if ssl ?c2 then [''ssl''] else [])"
     "map_of kw ''password'' = (if truthy (password ?c2) then Some (KStr (py_str_opt (password ?c2))) else None)"
     "map_of kw ''username'' = (if truthy (username ?c2) then Some (KStr (py_str_opt (username ?c2))) else None)"
     "map_of kw ''ssl'' = (if ssl ?c2 then Some (KBool True) else None)"
    by blast
  have 2: "map fst kw = [''host'', ''port'', ''password'', ''ssl'']
        \<and> map_of kw ''password'' = Some (KStr ''pass'')
        \<and> map_of kw ''ssl'' = Some (KBool True)
        \<and> map_of kw ''username'' = None"
    using k(2-5) by (simp add: cfg0_def truthy_def py_str_opt_def)
  from 1 2 k(1) g g2 show ?thesis by auto
qed



section \<open>String operations\<close>

declare replace_from.simps [simp del]

lemma replace_from_Nil [simp]: "replace_from old new [] = []"
  by (simp add: replace_from.simps)

lemma replace_from_match:
  "old \<noteq> [] \<Longrightarrow> s \<noteq> [] \<Longrightarrow> prefix old s \<Longrightarrow>
     replace_from old new s = new @ replace_from old new (drop (length old) s)"
  by (subst replace_from.simps) simp

lemma replace_from_step:
  "old \<noteq> [] \<Longrightarrow> \<not> prefix old (c # cs) \<Longrightarrow>
     replace_from old new (c # cs) = c # replace_from old new cs"
  by (subst replace_from.simps) simp

lemma disjoint_prefix_append:
  assumes "new \<noteq> []" and "set p \<inter> set new = {}" and "prefix p (new @ r)"
  shows "p = []"
proof (cases p)
  case Nil
  then show ?thesis .
next
  case (Cons x xs)
  from assms(1) obtain y ys where n: "new = y # ys" by (cases new) auto
  from assms(3) Cons n have "x = y" by simp
  with assms(2) Cons n show ?thesis by auto
qed

lemma prefix_replace_from:
  assumes "old \<noteq> []" and "new \<noteq> []"
  shows "set p \<inter> set new = {} \<Longrightarrow> prefix p (replace_from old new s) \<Longrightarrow> prefix p s"
proof (induction s arbitrary: p)
  case Nil
  then show ?case by simp
next
  case (Cons c cs)
  show ?case
  proof (cases "prefix old (c # cs)")
    case True
    with assms Cons.prems have "p = []"
      using disjoint_prefix_append [of new p] by (simp add: replace_from_match)
    then show ?thesis by simp
  next
    case False
    with assms Cons.prems have pr: "prefix p (c # replace_from old new cs)"
      by (simp add: replace_from_step)
    show ?thesis
    proof (cases p)
      case Nil
      then show ?thesis by simp
    next
      case (Cons x xs)
      with pr have "x = c" and "prefix xs (replace_from old new cs)" by simp_all
      moreover from Cons Cons.prems(1) have "set xs \<inter> set new = {}" by auto
      ultimately have "prefix xs cs" using Cons.IH by blast
      with \<open>x = c\<close> Cons show ?thesis by simp
    qed
  qed
qed

lemma no_token_in_replace_from:
  assumes "old \<noteq> []" and "new \<noteq> []" and "set old \<inter> set new = {}"
  shows "\<not> sublist old (replace_from old new s)"
proof (induction "length s" arbitrary: s rule: less_induct)
  case less
  show ?case
  proof (cases s)
    case Nil
    with assms(1) show ?thesis by simp
  next
    case (Cons c cs)
    show ?thesis
    proof (cases "prefix old s")
      case True
      let ?rest = "replace_from old new (drop (length old) s)"
      from assms(1) Cons have "length (drop (length old) s) < length s" by (cases old) auto
      then have ih: "\<not> sublist old ?rest" using less by blast
      have a: "\<not> sublist old new"
      proof
        assume "sublist old new"
        then have "set old \<subseteq> set new" by (rule set_mono_sublist)
        with assms(1,3) show False by (cases old) auto
      qed
      have b: "\<not> (\<exists>x1 x2. old = x1 @ x2 \<and> suffix x1 new \<and> prefix x2 ?rest)"
      proof
        assume "\<exists>x1 x2. old = x1 @ x2 \<and> suffix x1 new \<and> prefix x2 ?rest"
        then obtain x1 x2 where x: "old = x1 @ x2" "suffix x1 new" "prefix x2 ?rest" by blast
        from x(2) have "set x1 \<subseteq> set new" by (rule set_mono_suffix)
        with x(1) assms(3) have "x1 = []" by (cases x1) auto
        with x have "prefix old ?rest" by simp
        with ih show False by blast
      qed
      from True Cons assms(1) have "replace_from old new s = new @ ?rest"
        by (simp add: replace_from_match)
      with a b ih show ?thesis by (simp add: sublist_append)
    next
      case False
      with Cons assms(1) have eq: "replace_from old new s = c # replace_from old new cs"
        by (simp add: replace_from_step)
      from Cons have "length cs < length s" by simp
      then have ih: "\<not> sublist old (replace_from old new cs)" using less by blast
      have "\<not> prefix old (replace_from old new s)"
        using False prefix_replace_from [OF assms(1,2) assms(3)] by blast
      with eq ih show ?thesis by (simp add: sublist_Cons_right)
    qed
  qed
qed

lemma no_token_in_py_replace:
  assumes "t \<noteq> []" and "CHR ''*'' \<notin> set t"
  shows "\<not> sublist t (py_replace t ''***'' s)"
proof -
  from assms(2) have "set t \<inter> set ''***'' = {}" by simp
  with assms(1) show ?thesis
    using no_token_in_replace_from [of t "''***''" s] by (simp add: py_replace_def)
qed

lemma sublist_py_strip: "sublist t (py_strip s) \<Longrightarrow> sublist t s"
proof -
  assume a: "sublist t (py_strip s)"
  have "sublist (py_strip s) s"
  proof -
    have "sublist (dropWhile py_isspace (rev (dropWhile py_isspace s))) (rev (dropWhile py_isspace s))"
      by (rule sublist_dropWhile)
    then have "sublist (py_strip s) (dropWhile py_isspace s)"
      by (simp add: py_strip_def sublist_rev_left)
    moreover have "sublist (dropWhile py_isspace s) s" by (rule sublist_dropWhile)
    ultimately show ?thesis by (rule sublist_order.order_trans)
  qed
  with a show ?thesis by (rule sublist_order.order_trans)
qed

text \<open>
  The stripped output does not begin with whitespace, so an occurrence of the token that
  begins in the fixed text and ends in the output makes the token straddle the fixed text.
\<close>

lemma py_strip_hd: "py_strip s \<noteq> [] \<Longrightarrow> \<not> py_isspace (hd (py_strip s))"
proof -
  assume ne: "py_strip s \<noteq> []"
  let ?u = "dropWhile py_isspace s"
  have u: "?u \<noteq> []"
  proof
    assume e: "?u = []"
    have "py_strip s = []" unfolding py_strip_def e by simp
    with ne show False by blast
  qed
  then obtain x xs where x: "?u = x # xs" by (cases ?u) auto
  from u have nx: "\<not> py_isspace x" using hd_dropWhile [of py_isspace s] x by simp
  have "dropWhile py_isspace (rev xs @ [x]) = dropWhile py_isspace (rev xs) @ [x] \<or>
        dropWhile py_isspace (rev xs @ [x]) = [x]"
    using nx by (simp add: dropWhile_append)
  then have "hd (rev (dropWhile py_isspace (rev xs @ [x]))) = x" by auto
  with x nx show ?thesis by (simp add: py_strip_def)
qed

lemma straddles_from_split:
  "\<not> straddles_from pre (a @ c # b) \<Longrightarrow> pre @ a \<noteq> [] \<Longrightarrow> suffix (pre @ a) ''git clone failed: '' \<Longrightarrow>
     py_isspace c"
proof (induction a arbitrary: pre)
  case Nil
  then show ?case by auto
next
  case (Cons x xs)
  from Cons.prems(1) have "\<not> straddles_from (pre @ [x]) (xs @ c # b)" by simp
  moreover from Cons.prems(2,3) have "(pre @ [x]) @ xs \<noteq> []" "suffix ((pre @ [x]) @ xs) ''git clone failed: ''"
    by simp_all
  ultimately show ?case by (rule Cons.IH)
qed

lemma no_token_after_prefix:
  assumes "\<not> sublist t ''git clone failed: ''" and "\<not> straddles_prefix t"
    and "\<not> sublist t (py_strip b)"
  shows "\<not> sublist t (''git clone failed: '' @ py_strip b)"
proof
  assume "sublist t (''git clone failed: '' @ py_strip b)"
  with assms(1,3) obtain x1 x2 where x: "t = x1 @ x2" "suffix x1 ''git clone failed: ''" "prefix x2 (py_strip b)"
    by (auto simp only: sublist_append)
  have x1: "x1 \<noteq> []"
  proof
    assume "x1 = []"
    with x have "prefix t (py_strip b)" by simp
    with assms(3) show False by (blast intro: prefix_imp_sublist)
  qed
  have x2: "x2 \<noteq> []"
  proof
    assume "x2 = []"
    with x have "suffix t ''git clone failed: ''" by simp
    with assms(1) show False by (blast intro: suffix_imp_sublist)
  qed
  then obtain c cs where c: "x2 = c # cs" by (cases x2) auto
  with x(3) have ne: "py_strip b \<noteq> []" and hd: "hd (py_strip b) = c" by (auto simp: prefix_def)
  then have "\<not> py_isspace c" using py_strip_hd [of b] by simp
  moreover from assms(2) x(1) c have "\<not> straddles_from [] (x1 @ c # cs)" by (simp add: straddles_prefix_def)
  then have "py_isspace c" using x1 x(2) straddles_from_split [of "[]" x1 c cs] by simp
  ultimately show False by blast
qed

section \<open>The indexing handlers\<close>

lemmas eff_defs = ret_def lift_def call_def bind_def try_except_def opt_exn_def

lemma derive_myrepo: "derive_repo_name ''/org/myrepo.git'' = ''myrepo''"
  by (simp add: derive_repo_name_def last_segment_def rstrip_slash_def Let_def suffix_def)

lemma already_indexed_trace: "snd (already_indexed w po rs tr) = tr"
  by (induction rs) (simp_all add: eff_defs split: option.splits sum.splits)

lemma already_indexed_same_trace: "already_indexed w po rs tr = (a, b) \<Longrightarrow> b = tr"
  using already_indexed_trace [of w po rs tr] by simp

lemma already_indexed_split:
  "\<forall>q\<in>set pre. entry_resolves w q \<Longrightarrow> entry_resolves_to w po r \<Longrightarrow>
     already_indexed w po (pre @ r # post) tr = (Inr True, tr)"
  by (induction pre)
    (auto simp add: eff_defs entry_resolves_def entry_resolves_to_def split: option.splits sum.splits)

lemma already_indexed_match:
  "\<exists>r\<in>set rs. entry_resolves_to w po r \<Longrightarrow> fst (already_indexed w po rs tr) \<noteq> Inr False"
  by (induction rs)
    (auto simp add: eff_defs entry_resolves_to_def split: option.splits sum.splits)

lemma already_indexed_skip:
  "\<forall>q\<in>set pre. entry_resolves w q \<and> \<not> entry_resolves_to w po q \<Longrightarrow>
     already_indexed w po (pre @ rest) tr = already_indexed w po rest tr"
  by (induction pre)
    (auto simp add: eff_defs entry_resolves_def entry_resolves_to_def split: option.splits sum.splits)

lemma already_indexed_clean:
  "\<forall>r\<in>set rs. entry_resolves w r \<and> \<not> entry_resolves_to w po r \<Longrightarrow>
     already_indexed w po rs tr = (Inr False, tr)"
  using already_indexed_skip [of rs w po "[]" tr] by (simp add: ret_def)

lemma babel_path: "py_path_str ''/node_modules/@babel/core'' = ''/node_modules/@babel/core''"
  by (simp add: py_path_str_def Let_def)

lemma package_listed_iff: "package_listed pn rs \<longleftrightarrow> (\<exists>r\<in>set rs. name_matches pn r)"
  by (induction rs) (auto simp: name_matches_def)

lemma already_indexed_text: "sublist ''already indexed'' (a @ '' is already indexed.'')"
proof -
  have "a @ '' is already indexed.'' = (a @ '' is '') @ ''already indexed'' @ ''.''" by simp
  then show ?thesis by (simp only: sublist_appendI)
qed

text \<open>
  C9. \<open>add_code_to_graph\<close> with a path whose resolved form does not exist returns
  \<open>success = True\<close>, \<open>status = "path_not_found"\<close> and a message quoting the path
  as given, and calls no collaborator: the trace of calls is empty (no lister, no
  estimator, no job store, no submission).
\<close>

theorem add_code_to_graph_missing_path:
  assumes "arg_path args = Some p" and "resolve w p = Inr po" and "path_exists w po = Inr False"
  shows "add_code_to_graph w args [] =
           (Inr [(''success'', VBool True), (''status'', VStr ''path_not_found''),
                 (''message'', VStr (''Path '' @ quoted p @ '' does not exist.''))], [])"
  using assms by (simp add: add_code_to_graph_def add_code_to_graph_body_def eff_defs)

theorem add_code_to_graph_missing_path_witness:
  "add_code_to_graph world0 (args0\<lparr>arg_path := Some ''/does/not/exist''\<rparr>) [] =
     (Inr [(''success'', VBool True), (''status'', VStr ''path_not_found''),
           (''message'', VStr (''Path '' @ quoted ''/does/not/exist'' @ '' does not exist.''))], [])"
proof -
  have "arg_path (args0\<lparr>arg_path := Some ''/does/not/exist''\<rparr>) = Some ''/does/not/exist''"
    and "resolve world0 ''/does/not/exist'' = Inr ''/does/not/exist''"
    and "path_exists world0 ''/does/not/exist'' = Inr False"
    by (simp_all add: world0_def)
  then show ?thesis by (rule add_code_to_graph_missing_path)
qed

text \<open>
  C2. The claim says that a listed entry resolving to the candidate's path always gives
  the already-indexed result. The loop reads the entries in order, and an entry without
  a path, or one whose path does not resolve, raises before a later duplicate is reached:
  the result is then the error mapping. As amended: for \<open>add_code_to_graph\<close> with an
  existing path and a listing that holds an entry resolving to the candidate's resolved
  path, whatever the two spellings, the result is \<open>success = False\<close> with a message
  saying the repository is already indexed whenever every entry listed before such an
  entry carries a path that resolves, and otherwise the error mapping of the exception an
  earlier entry raised; in both cases the only calls made are the one on the lister and
  the error log (no estimator call, no job store call).
\<close>

theorem add_code_to_graph_duplicate:
  assumes "arg_path args = Some p" and "resolve w p = Inr po" and "path_exists w po = Inr True"
    and "list_repos_func w = Inr l"
    and "\<exists>r\<in>set (repositories l). entry_resolves_to w po r"
  shows "(\<forall>pre r post. repositories l = pre @ r # post \<and> entry_resolves_to w po r
             \<and> (\<forall>q\<in>set pre. entry_resolves w q)
           \<longrightarrow> add_code_to_graph w args [] =
                 (Inr [(''success'', VBool False),
                       (''message'', VStr (''Repository '' @ quoted p @ '' is already indexed.''))],
                  [ListRepos])
               \<and> sublist ''already indexed'' (''Repository '' @ quoted p @ '' is already indexed.''))
       \<and> (fst (add_code_to_graph w args []) =
              Inr [(''success'', VBool False),
                   (''message'', VStr (''Repository '' @ quoted p @ '' is already indexed.''))]
            \<or> (\<exists>e. fst (add_code_to_graph w args []) =
                  Inr [(''error'', VStr (''Failed to start background processing: '' @ exn_str e))]))
       \<and> (\<forall>c\<in>set (snd (add_code_to_graph w args [])). c = ListRepos \<or> (\<exists>m. c = DebugLog m))
       \<and> (\<forall>pre r post. repositories l = pre @ r # post
             \<and> (\<forall>q\<in>set pre. entry_resolves w q \<and> \<not> entry_resolves_to w po q)
           \<longrightarrow> (repo_path r = None \<longrightarrow>
                  fst (add_code_to_graph w args []) =
                    Inr [(''error'', VStr (''Failed to start background processing: '' @ quoted ''path''))])
               \<and> (\<forall>q e. repo_path r = Some q \<and> resolve w q = Inl e \<longrightarrow>
                    fst (add_code_to_graph w args []) =
                      Inr [(''error'', VStr (''Failed to start background processing: '' @ exn_str e))]))"
proof (intro conjI allI impI)
  fix pre r post
  assume a: "repositories l = pre @ r # post \<and> entry_resolves_to w po r
             \<and> (\<forall>q\<in>set pre. entry_resolves w q)"
  then have "already_indexed w po (repositories l) [ListRepos] = (Inr True, [ListRepos])"
    using already_indexed_split [of pre w po r post "[ListRepos]"] by simp
  with assms(1-4) show "add_code_to_graph w args [] =
                 (Inr [(''success'', VBool False),
                       (''message'', VStr (''Repository '' @ quoted p @ '' is already indexed.''))],
                  [ListRepos])"
    by (simp add: add_code_to_graph_def add_code_to_graph_body_def eff_defs)
  show "sublist ''already indexed'' (''Repository '' @ quoted p @ '' is already indexed.'')"
    using already_indexed_text [of "''Repository '' @ quoted p"] by simp
next
  obtain x tr' where ai: "already_indexed w po (repositories l) [ListRepos] = (x, tr')"
    by (cases "already_indexed w po (repositories l) [ListRepos]") auto
  then have tr': "tr' = [ListRepos]" by (rule already_indexed_same_trace)
  from ai assms(5) have nf: "x \<noteq> Inr False"
    using already_indexed_match [of "repositories l" w po "[ListRepos]"] by simp
  have both: "(fst (add_code_to_graph w args []) =
              Inr [(''success'', VBool False),
                   (''message'', VStr (''Repository '' @ quoted p @ '' is already indexed.''))]
            \<or> (\<exists>e. fst (add_code_to_graph w args []) =
                  Inr [(''error'', VStr (''Failed to start background processing: '' @ exn_str e))]))
       \<and> (\<forall>c\<in>set (snd (add_code_to_graph w args [])). c = ListRepos \<or> (\<exists>m. c = DebugLog m))"
  proof (cases x)
    case (Inl e)
    with ai tr' assms(1-4) have "add_code_to_graph w args [] =
        (Inr [(''error'', VStr (''Failed to start background processing: '' @ exn_str e))],
         [ListRepos, DebugLog (''Error creating background job: '' @ exn_str e)])"
      by (simp add: add_code_to_graph_def add_code_to_graph_body_def add_code_to_graph_handler_def eff_defs)
    then show ?thesis by auto
  next
    case (Inr b)
    with nf have "b" by simp
    with Inr ai tr' assms(1-4) have "add_code_to_graph w args [] =
                 (Inr [(''success'', VBool False),
                       (''message'', VStr (''Repository '' @ quoted p @ '' is already indexed.''))],
                  [ListRepos])"
      by (simp add: add_code_to_graph_def add_code_to_graph_body_def eff_defs)
    then show ?thesis by simp
  qed
  from both show "fst (add_code_to_graph w args []) =
              Inr [(''success'', VBool False),
                   (''message'', VStr (''Repository '' @ quoted p @ '' is already indexed.''))]
            \<or> (\<exists>e. fst (add_code_to_graph w args []) =
                  Inr [(''error'', VStr (''Failed to start background processing: '' @ exn_str e))])"
    by blast
  from both show "\<forall>c\<in>set (snd (add_code_to_graph w args [])). c = ListRepos \<or> (\<exists>m. c = DebugLog m)"
    by blast
next
  fix pre r post
  assume h: "repositories l = pre @ r # post
             \<and> (\<forall>q\<in>set pre. entry_resolves w q \<and> \<not> entry_resolves_to w po q)"
    and n: "repo_path r = None"
  from h have "already_indexed w po (repositories l) [ListRepos] = already_indexed w po (r # post) [ListRepos]"
    using already_indexed_skip [of pre w po "r # post" "[ListRepos]"] by simp
  with assms(1-4) n show "fst (add_code_to_graph w args []) =
                    Inr [(''error'', VStr (''Failed to start background processing: '' @ quoted ''path''))]"
    by (simp add: add_code_to_graph_def add_code_to_graph_body_def add_code_to_graph_handler_def eff_defs
        quoted_def)
next
  fix pre r post q e
  assume h: "repositories l = pre @ r # post
             \<and> (\<forall>q\<in>set pre. entry_resolves w q \<and> \<not> entry_resolves_to w po q)"
    and n: "repo_path r = Some q \<and> resolve w q = Inl e"
  from h have "already_indexed w po (repositories l) [ListRepos] = already_indexed w po (r # post) [ListRepos]"
    using already_indexed_skip [of pre w po "r # post" "[ListRepos]"] by simp
  with assms(1-4) n show "fst (add_code_to_graph w args []) =
                      Inr [(''error'', VStr (''Failed to start background processing: '' @ exn_str e))]"
    by (simp add: add_code_to_graph_def add_code_to_graph_body_def add_code_to_graph_handler_def eff_defs)
qed

theorem add_code_to_graph_duplicate_counterexample:
  "entry_resolves_to (world_listed [nopath_record, proj_record]) ''/srv/proj'' proj_record
   \<and> resolve (world_listed [nopath_record, proj_record]) ''proj'' = Inr ''/srv/proj''
   \<and> path_exists (world_listed [nopath_record, proj_record]) ''/srv/proj'' = Inr True
   \<and> add_code_to_graph (world_listed [nopath_record, proj_record]) (args0\<lparr>arg_path := Some ''proj''\<rparr>) [] =
       (Inr [(''error'', VStr (''Failed to start background processing: '' @ quoted ''path''))],
        [ListRepos, DebugLog (''Error creating background job: '' @ quoted ''path'')])"
  by (simp add: add_code_to_graph_def add_code_to_graph_body_def add_code_to_graph_handler_def eff_defs
      world_listed_def world0_def args0_def nopath_record_def proj_record_def repositories_def
      entry_resolves_to_def get_default_def quoted_def)

theorem add_code_to_graph_duplicate_witness:
  "add_code_to_graph (world_listed [requests_record, proj_record]) (args0\<lparr>arg_path := Some ''proj''\<rparr>) [] =
     (Inr [(''success'', VBool False),
           (''message'', VStr (''Repository '' @ quoted ''proj'' @ '' is already indexed.''))],
      [ListRepos])
   \<and> add_code_to_graph (world_listed [proj_record, nopath_record]) (args0\<lparr>arg_path := Some ''proj''\<rparr>) [] =
     (Inr [(''success'', VBool False),
           (''message'', VStr (''Repository '' @ quoted ''proj'' @ '' is already indexed.''))],
      [ListRepos])
   \<and> sublist ''already indexed'' (''Repository '' @ quoted ''proj'' @ '' is already indexed.'')
   \<and> fst (add_code_to_graph (world_listed [requests_record, nopath_record, proj_record])
          (args0\<lparr>arg_path := Some ''proj''\<rparr>) []) =
       Inr [(''error'', VStr (''Failed to start background processing: '' @ quoted ''path''))]"
proof -
  let ?W = "world_listed [requests_record, proj_record]"
  let ?V = "world_listed [proj_record, nopath_record]"
  let ?U = "world_listed [requests_record, nopath_record, proj_record]"
  let ?A = "args0\<lparr>arg_path := Some ''proj''\<rparr>"
  have 1: "arg_path ?A = Some ''proj''" by simp
  have 2: "resolve ?W ''proj'' = Inr ''/srv/proj''" "resolve ?V ''proj'' = Inr ''/srv/proj''"
    by (simp_all add: world_listed_def world0_def)
  have 3: "path_exists ?W ''/srv/proj'' = Inr True" "path_exists ?V ''/srv/proj'' = Inr True"
    by (simp_all add: world_listed_def world0_def)
  have 4: "list_repos_func ?W = Inr (Some [requests_record, proj_record])"
    "list_repos_func ?V = Inr (Some [proj_record, nopath_record])"
    by (simp_all add: world_listed_def)
  have m: "entry_resolves_to ?W ''/srv/proj'' proj_record" "entry_resolves_to ?V ''/srv/proj'' proj_record"
    by (simp_all add: entry_resolves_to_def proj_record_def world_listed_def world0_def)
  have 5: "\<exists>r\<in>set (repositories (Some [requests_record, proj_record])). entry_resolves_to ?W ''/srv/proj'' r"
    "\<exists>r\<in>set (repositories (Some [proj_record, nopath_record])). entry_resolves_to ?V ''/srv/proj'' r"
    using m by (simp_all add: repositories_def)
  have 6: "repositories (Some [requests_record, proj_record]) = [requests_record] @ proj_record # []
      \<and> entry_resolves_to ?W ''/srv/proj'' proj_record \<and> (\<forall>q\<in>set [requests_record]. entry_resolves ?W q)"
    using m by (simp add: repositories_def entry_resolves_def requests_record_def world_listed_def world0_def)
  have 7: "repositories (Some [proj_record, nopath_record]) = [] @ proj_record # [nopath_record]
      \<and> entry_resolves_to ?V ''/srv/proj'' proj_record \<and> (\<forall>q\<in>set []. entry_resolves ?V q)"
    using m by (simp add: repositories_def)
  from add_code_to_graph_duplicate [OF 1 2(1) 3(1) 4(1) 5(1)] 6
  have a: "add_code_to_graph ?W ?A [] =
     (Inr [(''success'', VBool False),
           (''message'', VStr (''Repository '' @ quoted ''proj'' @ '' is already indexed.''))],
      [ListRepos])
     \<and> sublist ''already indexed'' (''Repository '' @ quoted ''proj'' @ '' is already indexed.'')"
    by blast
  from add_code_to_graph_duplicate [OF 1 2(2) 3(2) 4(2) 5(2)] 7
  have b: "add_code_to_graph ?V ?A [] =
     (Inr [(''success'', VBool False),
           (''message'', VStr (''Repository '' @ quoted ''proj'' @ '' is already indexed.''))],
      [ListRepos])"
    by blast
  have u2: "resolve ?U ''proj'' = Inr ''/srv/proj''" and u3: "path_exists ?U ''/srv/proj'' = Inr True"
    and u4: "list_repos_func ?U = Inr (Some [requests_record, nopath_record, proj_record])"
    by (simp_all add: world_listed_def world0_def)
  have u5: "\<exists>r\<in>set (repositories (Some [requests_record, nopath_record, proj_record])).
      entry_resolves_to ?U ''/srv/proj'' r"
    by (simp add: repositories_def entry_resolves_to_def proj_record_def world_listed_def world0_def)
  have u6: "repositories (Some [requests_record, nopath_record, proj_record])
        = [requests_record] @ nopath_record # [proj_record]
      \<and> (\<forall>q\<in>set [requests_record]. entry_resolves ?U q \<and> \<not> entry_resolves_to ?U ''/srv/proj'' q)"
    by (simp add: repositories_def entry_resolves_def entry_resolves_to_def requests_record_def
        world_listed_def world0_def)
  have u7: "repo_path nopath_record = None" by (simp add: nopath_record_def)
  from add_code_to_graph_duplicate [OF 1 u2 u3 u4 u5] u6 u7
  have c: "fst (add_code_to_graph ?U ?A []) =
       Inr [(''error'', VStr (''Failed to start background processing: '' @ quoted ''path''))]"
    by blast
  from a b c show ?thesis by blast
qed


text \<open>
  C3. The claim ties the rejection of a second \<open>add_package_to_graph\<close> to the
  path comparison of the other handlers. The code compares no path here: an entry
  matches when its dependency flag is truthy and its name is the package name or the
  package name followed by \<open>.py\<close>. As amended: with a language given and a listing
  that holds such an entry, the result is \<open>success = False\<close> with a message saying the
  package is already indexed, and the only call made is the one on the lister (no
  locator, estimator or job store call). A listing that holds the package's own path
  under another name does not stop the call: the estimator and the job store are called.
\<close>

theorem add_package_to_graph_listed:
  assumes "arg_language args = Some lang" and "lang \<noteq> []"
    and "list_repos_func w = Inr l"
    and "\<exists>r\<in>set (repositories l). name_matches (arg_package_name args) r"
  shows "add_package_to_graph w args [] =
           (Inr [(''success'', VBool False),
                 (''message'', VStr (''Package '' @ quoted (py_str_opt (arg_package_name args))
                     @ '' is already indexed.''))],
            [ListRepos])
         \<and> sublist ''already indexed''
              (''Package '' @ quoted (py_str_opt (arg_package_name args)) @ '' is already indexed.'')"
proof -
  from assms(4) have "package_listed (arg_package_name args) (repositories l)"
    by (simp add: package_listed_iff)
  with assms(1-3) have "add_package_to_graph w args [] =
           (Inr [(''success'', VBool False),
                 (''message'', VStr (''Package '' @ quoted (py_str_opt (arg_package_name args))
                     @ '' is already indexed.''))],
            [ListRepos])"
    by (simp add: add_package_to_graph_def add_package_to_graph_body_def eff_defs Let_def)
  moreover have "sublist ''already indexed''
              (''Package '' @ quoted (py_str_opt (arg_package_name args)) @ '' is already indexed.'')"
    using already_indexed_text [of "''Package '' @ quoted (py_str_opt (arg_package_name args))"] by simp
  ultimately show ?thesis by blast
qed

theorem add_package_to_graph_listed_witness:
  "add_package_to_graph (world_listed [proj_record, requests_record]) args_all [] =
     (Inr [(''success'', VBool False),
           (''message'', VStr (''Package '' @ quoted ''requests'' @ '' is already indexed.''))],
      [ListRepos])"
proof -
  let ?W = "world_listed [proj_record, requests_record]"
  have 1: "arg_language args_all = Some ''python''" and 2: "''python'' \<noteq> []"
    by (simp_all add: args_all_def)
  have 3: "list_repos_func ?W = Inr (Some [proj_record, requests_record])" by (simp add: world_listed_def)
  have 4: "\<exists>r\<in>set (repositories (Some [proj_record, requests_record])). name_matches (arg_package_name args_all) r"
    by (simp add: repositories_def name_matches_def requests_record_def proj_record_def args_all_def)
  have n: "py_str_opt (arg_package_name args_all) = ''requests''"
    by (simp add: args_all_def py_str_opt_def)
  from add_package_to_graph_listed [OF 1 2 3 4] show ?thesis unfolding n by blast
qed

theorem add_package_to_graph_path_counterexample:
  "entry_resolves_to (world_listed [babel_record]) ''/node_modules/@babel/core'' babel_record
   \<and> repo_is_dependency babel_record
   \<and> get_local_package_path (world_listed [babel_record]) (Some ''@babel/core'') ''javascript''
        = Inr (Some ''/node_modules/@babel/core'')
   \<and> add_package_to_graph (world_listed [babel_record])
        (args0\<lparr>arg_package_name := Some ''@babel/core'', arg_language := Some ''javascript''\<rparr>) []
      = (Inr [(''success'', VBool True), (''job_id'', VStr ''job-1''),
              (''package_name'', VStr ''@babel/core''),
              (''discovered_path'', VStr ''/node_modules/@babel/core''),
              (''message'', VStr (''Background processing started for package '' @ quoted ''@babel/core'')),
              (''estimated_files'', VInt 3),
              (''estimated_duration_seconds'', VFloat 7),
              (''estimated_duration_human'', VStr ''7s''),
              (''instructions'', VStr (''Use '' @ quoted ''check_job_status'' @ '' with job_id ''
                  @ quoted ''job-1'' @ '' to monitor progress''))],
         [ListRepos,
          LocatePackage (Some ''@babel/core'') ''javascript'',
          Estimate ''/node_modules/@babel/core'',
          CreateJob ''/node_modules/@babel/core'' True,
          UpdateJob ''job-1'' 3 7,
          BuildCoro ''/node_modules/@babel/core'' True ''job-1'',
          Submit (Coro ''/node_modules/@babel/core'' True ''job-1''),
          DebugLog ''Started background job job-1 for package: @babel/core at /node_modules/@babel/core, is_dependency: True''])"
  by (simp add: add_package_to_graph_def add_package_to_graph_body_def eff_defs start_job_def
      estimate_entries_def world_listed_def world0_def args0_def babel_record_def repositories_def
      entry_resolves_to_def truthy_def py_str_opt_def py_str_bool_def get_default_def quoted_def Let_def
      babel_path)

lemma try_except_returns:
  assumes "\<And>e tr'. \<exists>d. fst (h e tr') = Inr d"
  shows "\<exists>d. fst (try_except m h tr) = Inr d"
proof (cases "m tr")
  case (Pair r tr')
  show ?thesis
  proof (cases r)
    case (Inl e)
    with Pair assms [of e tr'] show ?thesis by (simp add: try_except_def)
  next
    case (Inr x)
    with Pair show ?thesis by (simp add: try_except_def)
  qed
qed

lemma try_except_raised:
  "fst (m tr) = Inl e \<Longrightarrow> try_except m h tr = h e (snd (m tr))"
  by (cases "m tr") (simp add: try_except_def)

lemmas handler_defs =
  index_repository_def index_repository_body_def index_repository_handler_def
  add_code_to_graph_def add_code_to_graph_body_def add_code_to_graph_handler_def
  add_package_to_graph_def add_package_to_graph_body_def add_package_to_graph_handler_def
  start_job_def estimate_entries_def build_clone_url_def truthy_def py_str_opt_def

text \<open>
  C5. Each of the three entry points returns a mapping for every input, every world and
  every trace so far: the result is never an exception. A raise at any step inside the
  \<open>try\<close> is returned as \<open>{"error": message}\<close> with the handler's prefix and
  \<open>str(e)\<close> (for \<open>index_repository\<close> and a \<open>TimeoutExpired\<close>, the timeout
  message). The steps are followed in the order of the code, each under the condition
  that the steps before it succeeded: a missing \<open>path\<close> argument (the
  \<open>TypeError\<close> of \<open>Path(None)\<close>), path resolution and the existence test, the URL
  parser, the lister, an entry of the listing during the duplicate check (a missing
  \<open>"path"\<close> or a failing resolution), the package locator, the port of the URL, the
  clone, and then the estimator, job creation, job update, the work factory, the
  submission and the formatting of the duration.
\<close>

theorem handlers_return_mappings:
  fixes w :: "'t world" and args :: tool_args and tr :: "'t call list"
  defines "dep_f \<equiv> get_default (arg_is_dependency args) False"
    and "dep_t \<equiv> get_default (arg_is_dependency args) True"
    and "branch \<equiv> get_default (arg_branch args) ''main''"
    and "token \<equiv> os_environ w ''GIT_TOKEN''"
  defines "code_err \<equiv> \<lambda>e. fst (add_code_to_graph w args tr) =
        Inr [(''error'', VStr (''Failed to start background processing: '' @ exn_str e))]"
    and "pkg_err \<equiv> \<lambda>e. fst (add_package_to_graph w args tr) =
        Inr [(''error'', VStr (''Failed to start background processing for package ''
               @ quoted (py_str_opt (arg_package_name args)) @ '': '' @ exn_str e))]"
    and "idx_err \<equiv> \<lambda>u e. fst (index_repository w args tr) =
        Inr [(''error'', VStr (if exn_kind_of e = TimeoutExpired
                                then ''git clone timed out after 300 seconds for '' @ u
                                else ''Failed to clone and index repository: '' @ exn_str e))]"
  defines "dedup_errors \<equiv> \<lambda>(err :: exn \<Rightarrow> bool) po rs.
        \<forall>pre r post. rs = pre @ r # post
            \<and> (\<forall>q\<in>set pre. entry_resolves w q \<and> \<not> entry_resolves_to w po q) \<longrightarrow>
          (repo_path r = None \<longrightarrow> err (Exn KeyError (quoted ''path'')))
          \<and> (\<forall>q e. repo_path r = Some q \<and> resolve w q = Inl e \<longrightarrow> err e)"
    and "no_duplicate \<equiv> \<lambda>po rs. \<forall>r\<in>set rs. entry_resolves w r \<and> \<not> entry_resolves_to w po r"
    and "dispatch_errors \<equiv> \<lambda>(err :: exn \<Rightarrow> bool) po jp dep.
        (\<forall>e. estimate_processing_time w po = Inl e \<longrightarrow> err e)
        \<and> (\<forall>n t. estimate_processing_time w po = Inr (n, t) \<longrightarrow>
             (\<forall>e. create_job w jp dep = Inl e \<longrightarrow> err e)
             \<and> (\<forall>j. create_job w jp dep = Inr j \<longrightarrow>
                  (\<forall>e. update_job w j n t = Inl e \<longrightarrow> err e)
                  \<and> (update_job w j n t = Inr () \<longrightarrow>
                       (\<forall>e. build_graph_from_path_async w po dep j = Some e \<longrightarrow> err e)
                       \<and> (build_graph_from_path_async w po dep j = None \<longrightarrow>
                            (\<forall>e. run_coroutine_threadsafe w (Coro po dep j) = Some e \<longrightarrow> err e)
                            \<and> (run_coroutine_threadsafe w (Coro po dep j) = None \<longrightarrow>
                                 (\<forall>e. duration_human w t = Inl e \<longrightarrow> err e))))))"
  shows
  "((\<exists>d. fst (index_repository w args tr) = Inr d)
    \<and> (\<exists>d. fst (add_code_to_graph w args tr) = Inr d)
    \<and> (\<exists>d. fst (add_package_to_graph w args tr) = Inr d))
   \<and> ((arg_path args = None \<longrightarrow>
          code_err (Exn TypeError ''expected str, bytes or os.PathLike object, not NoneType''))
       \<and> (\<forall>p. arg_path args = Some p \<longrightarrow>
         (\<forall>e. resolve w p = Inl e \<longrightarrow> code_err e)
         \<and> (\<forall>po. resolve w p = Inr po \<longrightarrow>
              (\<forall>e. path_exists w po = Inl e \<longrightarrow> code_err e)
              \<and> (path_exists w po = Inr True \<longrightarrow>
                   (\<forall>e. list_repos_func w = Inl e \<longrightarrow> code_err e)
                   \<and> (\<forall>l. list_repos_func w = Inr l \<longrightarrow>
                        dedup_errors code_err po (repositories l)
                        \<and> (no_duplicate po (repositories l) \<longrightarrow>
                             dispatch_errors code_err po po dep_f))))))
   \<and> (\<forall>lang. arg_language args = Some lang \<and> lang \<noteq> [] \<longrightarrow>
         (\<forall>e. list_repos_func w = Inl e \<longrightarrow> pkg_err e)
         \<and> (\<forall>l. list_repos_func w = Inr l
                \<and> \<not> package_listed (arg_package_name args) (repositories l) \<longrightarrow>
              (\<forall>e. get_local_package_path w (arg_package_name args) lang = Inl e \<longrightarrow> pkg_err e)
              \<and> (\<forall>pp. get_local_package_path w (arg_package_name args) lang = Inr (Some pp)
                     \<and> pp \<noteq> [] \<and> os_path_exists w pp \<longrightarrow>
                   dispatch_errors pkg_err (py_path_str pp) pp dep_t)))
   \<and> (\<forall>u. arg_url args = Some u \<and> u \<noteq> [] \<longrightarrow>
         (\<forall>e. urlparse w u = Inl e \<longrightarrow> idx_err u e)
         \<and> (\<forall>parsed. urlparse w u = Inr parsed \<and> derive_repo_name (url_path parsed) \<noteq> [] \<longrightarrow>
              (\<forall>e. resolve w (workspace_join (derive_repo_name (url_path parsed))) = Inl e \<longrightarrow> idx_err u e)
              \<and> (\<forall>po. resolve w (workspace_join (derive_repo_name (url_path parsed))) = Inr po \<longrightarrow>
                   (\<forall>e. list_repos_func w = Inl e \<longrightarrow> idx_err u e)
                   \<and> (\<forall>l. list_repos_func w = Inr l \<longrightarrow>
                        dedup_errors (idx_err u) po (repositories l)
                        \<and> (no_duplicate po (repositories l) \<longrightarrow>
                             (\<forall>tok e. token = Some tok \<and> tok \<noteq> [] \<and> truthy (url_hostname parsed)
                                   \<and> url_port parsed = Inl e \<longrightarrow> idx_err u e)
                             \<and> (\<forall>clone_url. build_clone_url u parsed token = Inr clone_url \<longrightarrow>
                                  (\<forall>e. git_clone w [''git'', ''clone'', ''--depth'', ''1'', ''--branch'', branch,
                                           clone_url, workspace_join (derive_repo_name (url_path parsed))] = Inl e
                                      \<longrightarrow> idx_err u e)
                                  \<and> (\<forall>out. git_clone w [''git'', ''clone'', ''--depth'', ''1'', ''--branch'', branch,
                                           clone_url, workspace_join (derive_repo_name (url_path parsed))] = Inr (0, out)
                                      \<longrightarrow> dispatch_errors (idx_err u) po po dep_f)))))))"
proof (rule conjI)
  have h1: "\<And>u e tr'. \<exists>d. fst (index_repository_handler u e tr' :: (exn + 't pydict) \<times> 't call list) = Inr d"
    by (simp add: index_repository_handler_def eff_defs)
  have h2: "\<And>e tr'. \<exists>d. fst (add_code_to_graph_handler e tr' :: (exn + 't pydict) \<times> 't call list) = Inr d"
    by (simp add: add_code_to_graph_handler_def eff_defs)
  have h3: "\<And>pn e tr'. \<exists>d. fst (add_package_to_graph_handler pn e tr' :: (exn + 't pydict) \<times> 't call list) = Inr d"
    by (simp add: add_package_to_graph_handler_def eff_defs)
  have a: "\<exists>d. fst (index_repository w args tr) = Inr d"
  proof (cases "arg_url args")
    case None
    then show ?thesis by (simp add: index_repository_def eff_defs)
  next
    case (Some u)
    show ?thesis
    proof (cases "u = []")
      case True
      with Some show ?thesis by (simp add: index_repository_def eff_defs)
    next
      case False
      with Some show ?thesis
        using try_except_returns [of "index_repository_handler u", OF h1]
        by (simp add: index_repository_def Let_def)
    qed
  qed
  have b: "\<exists>d. fst (add_code_to_graph w args tr) = Inr d"
    unfolding add_code_to_graph_def by (rule try_except_returns [OF h2])
  have c: "\<exists>d. fst (add_package_to_graph w args tr) = Inr d"
  proof (cases "arg_language args")
    case None
    then show ?thesis by (simp add: add_package_to_graph_def eff_defs)
  next
    case (Some lang)
    show ?thesis
    proof (cases "lang = []")
      case True
      with Some show ?thesis by (simp add: add_package_to_graph_def eff_defs)
    next
      case False
      with Some show ?thesis
        using try_except_returns [of "add_package_to_graph_handler (arg_package_name args)", OF h3]
        by (simp add: add_package_to_graph_def Let_def)
    qed
  qed
  from a b c show "(\<exists>d. fst (index_repository w args tr) = Inr d)
    \<and> (\<exists>d. fst (add_code_to_graph w args tr) = Inr d)
    \<and> (\<exists>d. fst (add_package_to_graph w args tr) = Inr d)" by blast
next
  show "((arg_path args = None \<longrightarrow>
          code_err (Exn TypeError ''expected str, bytes or os.PathLike object, not NoneType''))
       \<and> (\<forall>p. arg_path args = Some p \<longrightarrow>
         (\<forall>e. resolve w p = Inl e \<longrightarrow> code_err e)
         \<and> (\<forall>po. resolve w p = Inr po \<longrightarrow>
              (\<forall>e. path_exists w po = Inl e \<longrightarrow> code_err e)
              \<and> (path_exists w po = Inr True \<longrightarrow>
                   (\<forall>e. list_repos_func w = Inl e \<longrightarrow> code_err e)
                   \<and> (\<forall>l. list_repos_func w = Inr l \<longrightarrow>
                        dedup_errors code_err po (repositories l)
                        \<and> (no_duplicate po (repositories l) \<longrightarrow>
                             dispatch_errors code_err po po dep_f))))))
   \<and> (\<forall>lang. arg_language args = Some lang \<and> lang \<noteq> [] \<longrightarrow>
         (\<forall>e. list_repos_func w = Inl e \<longrightarrow> pkg_err e)
         \<and> (\<forall>l. list_repos_func w = Inr l
                \<and> \<not> package_listed (arg_package_name args) (repositories l) \<longrightarrow>
              (\<forall>e. get_local_package_path w (arg_package_name args) lang = Inl e \<longrightarrow> pkg_err e)
              \<and> (\<forall>pp. get_local_package_path w (arg_package_name args) lang = Inr (Some pp)
                     \<and> pp \<noteq> [] \<and> os_path_exists w pp \<longrightarrow>
                   dispatch_errors pkg_err (py_path_str pp) pp dep_t)))
   \<and> (\<forall>u. arg_url args = Some u \<and> u \<noteq> [] \<longrightarrow>
         (\<forall>e. urlparse w u = Inl e \<longrightarrow> idx_err u e)
         \<and> (\<forall>parsed. urlparse w u = Inr parsed \<and> derive_repo_name (url_path parsed) \<noteq> [] \<longrightarrow>
              (\<forall>e. resolve w (workspace_join (derive_repo_name (url_path parsed))) = Inl e \<longrightarrow> idx_err u e)
              \<and> (\<forall>po. resolve w (workspace_join (derive_repo_name (url_path parsed))) = Inr po \<longrightarrow>
                   (\<forall>e. list_repos_func w = Inl e \<longrightarrow> idx_err u e)
                   \<and> (\<forall>l. list_repos_func w = Inr l \<longrightarrow>
                        dedup_errors (idx_err u) po (repositories l)
                        \<and> (no_duplicate po (repositories l) \<longrightarrow>
                             (\<forall>tok e. token = Some tok \<and> tok \<noteq> [] \<and> truthy (url_hostname parsed)
                                   \<and> url_port parsed = Inl e \<longrightarrow> idx_err u e)
                             \<and> (\<forall>clone_url. build_clone_url u parsed token = Inr clone_url \<longrightarrow>
                                  (\<forall>e. git_clone w [''git'', ''clone'', ''--depth'', ''1'', ''--branch'', branch,
                                           clone_url, workspace_join (derive_repo_name (url_path parsed))] = Inl e
                                      \<longrightarrow> idx_err u e)
                                  \<and> (\<forall>out. git_clone w [''git'', ''clone'', ''--depth'', ''1'', ''--branch'', branch,
                                           clone_url, workspace_join (derive_repo_name (url_path parsed))] = Inr (0, out)
                                      \<longrightarrow> dispatch_errors (idx_err u) po po dep_f)))))))"
    unfolding dispatch_errors_def dedup_errors_def no_duplicate_def code_err_def pkg_err_def idx_err_def
      dep_f_def dep_t_def branch_def token_def
    by (intro conjI allI impI;
        simp add: handler_defs eff_defs Let_def already_indexed_skip already_indexed_clean quoted_def
             del: append.simps)
qed


lemmas world_eval = world_fails_at_def world0_def args_all_def boom_def url0_def derive_myrepo
  workspace_join_def repositories_def build_clone_url_def get_default_def truthy_def py_str_opt_def
  entry_resolves_def entry_resolves_to_def babel_path code_error_def package_error_def index_error_def

theorem handlers_return_mappings_witness:
  "fst (add_code_to_graph world0 args0 []) =
     Inr [(''error'', VStr (''Failed to start background processing: ''
            @ ''expected str, bytes or os.PathLike object, not NoneType''))]
   \<and> fst (add_code_to_graph (world_fails_at AtResolve) args_all []) = Inr code_error
   \<and> fst (add_code_to_graph (world_fails_at AtExists) args_all []) = Inr code_error
   \<and> fst (add_code_to_graph (world_fails_at AtLister) args_all []) = Inr code_error
   \<and> fst (add_code_to_graph (world_listed [nopath_record]) args_all []) =
        Inr [(''error'', VStr (''Failed to start background processing: '' @ quoted ''path''))]
   \<and> fst (add_code_to_graph (world_fails_at AtEstimate) args_all []) = Inr code_error
   \<and> fst (add_code_to_graph (world_fails_at AtCreate) args_all []) = Inr code_error
   \<and> fst (add_code_to_graph (world_fails_at AtUpdate) args_all []) = Inr code_error
   \<and> fst (add_code_to_graph (world_fails_at AtBuild) args_all []) = Inr code_error
   \<and> fst (add_code_to_graph (world_fails_at AtSubmit) args_all []) = Inr code_error
   \<and> fst (add_code_to_graph (world_fails_at AtFormat) args_all []) = Inr code_error
   \<and> fst (add_package_to_graph (world_fails_at AtLister) args_all []) = Inr package_error
   \<and> fst (add_package_to_graph (world_fails_at AtLocate) args_all []) = Inr package_error
   \<and> fst (add_package_to_graph (world_fails_at AtEstimate) args_all []) = Inr package_error
   \<and> fst (add_package_to_graph (world_fails_at AtCreate) args_all []) = Inr package_error
   \<and> fst (add_package_to_graph (world_fails_at AtUpdate) args_all []) = Inr package_error
   \<and> fst (add_package_to_graph (world_fails_at AtBuild) args_all []) = Inr package_error
   \<and> fst (add_package_to_graph (world_fails_at AtSubmit) args_all []) = Inr package_error
   \<and> fst (index_repository (world_fails_at AtUrlparse) args_all []) = Inr index_error
   \<and> fst (index_repository (world_fails_at AtResolve) args_all []) = Inr index_error
   \<and> fst (index_repository (world_fails_at AtLister) args_all []) = Inr index_error
   \<and> fst (index_repository (world_fails_at AtClone) args_all []) = Inr index_error
   \<and> fst (index_repository (world_fails_at AtEstimate) args_all []) = Inr index_error
   \<and> fst (index_repository (world_fails_at AtCreate) args_all []) = Inr index_error
   \<and> fst (index_repository (world_fails_at AtUpdate) args_all []) = Inr index_error
   \<and> fst (index_repository (world_fails_at AtBuild) args_all []) = Inr index_error
   \<and> fst (index_repository (world_fails_at AtSubmit) args_all []) = Inr index_error
   \<and> fst (index_repository world_failing args_all []) =
        Inr [(''error'', VStr (''git clone timed out after 300 seconds for '' @ url0))]"
proof -
  note c = handlers_return_mappings [of _ args_all "[]", THEN conjunct2, THEN conjunct1, THEN conjunct2]
  note p = handlers_return_mappings [of _ args_all "[]", THEN conjunct2, THEN conjunct2, THEN conjunct1]
  note i = handlers_return_mappings [of _ args_all "[]", THEN conjunct2, THEN conjunct2, THEN conjunct2]
  have c0: "fst (add_code_to_graph world0 args0 []) =
     Inr [(''error'', VStr (''Failed to start background processing: ''
            @ ''expected str, bytes or os.PathLike object, not NoneType''))]"
    using handlers_return_mappings [of world0 args0 "[]", THEN conjunct2, THEN conjunct1, THEN conjunct1]
    by (simp add: args0_def)
  have c1: "fst (add_code_to_graph (world_fails_at AtResolve) args_all []) = Inr code_error"
    using c [of "world_fails_at AtResolve"] by (simp add: world_eval)
  have c2: "fst (add_code_to_graph (world_fails_at AtExists) args_all []) = Inr code_error"
    using c [of "world_fails_at AtExists"] by (simp add: world_eval)
  have c3: "fst (add_code_to_graph (world_fails_at AtLister) args_all []) = Inr code_error"
    using c [of "world_fails_at AtLister"] by (simp add: world_eval)
  have c4: "fst (add_code_to_graph (world_listed [nopath_record]) args_all []) =
        Inr [(''error'', VStr (''Failed to start background processing: '' @ quoted ''path''))]"
  proof -
    let ?W = "world_listed [nopath_record]"
    have h: "arg_path args_all = Some ''proj''" "resolve ?W ''proj'' = Inr ''/srv/proj''"
      "path_exists ?W ''/srv/proj'' = Inr True" "list_repos_func ?W = Inr (Some [nopath_record])"
      by (simp_all add: world_listed_def world0_def args_all_def)
    from c [of ?W, rule_format, OF h(1), THEN conjunct2, rule_format, OF h(2), THEN conjunct2,
        rule_format, OF h(3), THEN conjunct2, rule_format, OF h(4), THEN conjunct1,
        rule_format, of "[]" nopath_record "[]"]
    show ?thesis by (simp add: repositories_def nopath_record_def)
  qed
  have c5: "fst (add_code_to_graph (world_fails_at AtEstimate) args_all []) = Inr code_error"
    using c [of "world_fails_at AtEstimate"] by (simp add: world_eval)
  have c6: "fst (add_code_to_graph (world_fails_at AtCreate) args_all []) = Inr code_error"
    using c [of "world_fails_at AtCreate"] by (simp add: world_eval)
  have c7: "fst (add_code_to_graph (world_fails_at AtUpdate) args_all []) = Inr code_error"
    using c [of "world_fails_at AtUpdate"] by (simp add: world_eval)
  have c8: "fst (add_code_to_graph (world_fails_at AtBuild) args_all []) = Inr code_error"
    using c [of "world_fails_at AtBuild"] by (simp add: world_eval)
  have c9: "fst (add_code_to_graph (world_fails_at AtSubmit) args_all []) = Inr code_error"
    using c [of "world_fails_at AtSubmit"] by (simp add: world_eval)
  have c10: "fst (add_code_to_graph (world_fails_at AtFormat) args_all []) = Inr code_error"
    using c [of "world_fails_at AtFormat"] by (simp add: world_eval)
  have p1: "fst (add_package_to_graph (world_fails_at AtLister) args_all []) = Inr package_error"
    using p [of "world_fails_at AtLister"] by (simp add: world_eval)
  have p2: "fst (add_package_to_graph (world_fails_at AtLocate) args_all []) = Inr package_error"
    using p [of "world_fails_at AtLocate"] by (simp add: world_eval)
  have p3: "fst (add_package_to_graph (world_fails_at AtEstimate) args_all []) = Inr package_error"
    using p [of "world_fails_at AtEstimate"] by (simp add: world_eval)
  have p4: "fst (add_package_to_graph (world_fails_at AtCreate) args_all []) = Inr package_error"
    using p [of "world_fails_at AtCreate"] by (simp add: world_eval)
  have p5: "fst (add_package_to_graph (world_fails_at AtUpdate) args_all []) = Inr package_error"
    using p [of "world_fails_at AtUpdate"] by (simp add: world_eval)
  have p6: "fst (add_package_to_graph (world_fails_at AtBuild) args_all []) = Inr package_error"
    using p [of "world_fails_at AtBuild"] by (simp add: world_eval)
  have p7: "fst (add_package_to_graph (world_fails_at AtSubmit) args_all []) = Inr package_error"
    using p [of "world_fails_at AtSubmit"] by (simp add: world_eval)
  have i1: "fst (index_repository (world_fails_at AtUrlparse) args_all []) = Inr index_error"
    using i [of "world_fails_at AtUrlparse"] by (simp add: world_eval)
  have i2: "fst (index_repository (world_fails_at AtResolve) args_all []) = Inr index_error"
    using i [of "world_fails_at AtResolve"] by (simp add: world_eval)
  have i3: "fst (index_repository (world_fails_at AtLister) args_all []) = Inr index_error"
    using i [of "world_fails_at AtLister"] by (simp add: world_eval)
  have i4: "fst (index_repository (world_fails_at AtClone) args_all []) = Inr index_error"
    using i [of "world_fails_at AtClone"] by (simp add: world_eval)
  have i5: "fst (index_repository (world_fails_at AtEstimate) args_all []) = Inr index_error"
    using i [of "world_fails_at AtEstimate"] by (simp add: world_eval)
  have i6: "fst (index_repository (world_fails_at AtCreate) args_all []) = Inr index_error"
    using i [of "world_fails_at AtCreate"] by (simp add: world_eval)
  have i7: "fst (index_repository (world_fails_at AtUpdate) args_all []) = Inr index_error"
    using i [of "world_fails_at AtUpdate"] by (simp add: world_eval)
  have i8: "fst (index_repository (world_fails_at AtBuild) args_all []) = Inr index_error"
    using i [of "world_fails_at AtBuild"] by (simp add: world_eval)
  have i9: "fst (index_repository (world_fails_at AtSubmit) args_all []) = Inr index_error"
    using i [of "world_fails_at AtSubmit"] by (simp add: world_eval)
  have i10: "fst (index_repository world_failing args_all []) =
        Inr [(''error'', VStr (''git clone timed out after 300 seconds for '' @ url0))]"
    using i [of world_failing] by (simp add: world_failing_def world_eval)
  from c0 c1 c2 c3 c4 c5 c6 c7 c8 c9 c10 p1 p2 p3 p4 p5 p6 p7 i1 i2 i3 i4 i5 i6 i7 i8 i9 i10
  show ?thesis by (intro conjI)
qed


lemma clone_calls_append [simp]: "clone_calls (xs @ ys) = clone_calls xs @ clone_calls ys"
  by (induction xs rule: clone_calls.induct) simp_all

lemma in_clone_calls: "GitClone argv \<in> set tr \<longleftrightarrow> argv \<in> set (clone_calls tr)"
  by (induction tr rule: clone_calls.induct) auto

lemma start_job_clone_calls:
  "start_job w a b c tr = (x, tr') \<Longrightarrow> clone_calls tr' = clone_calls tr"
  by (auto simp add: start_job_def eff_defs split: sum.splits prod.splits)

lemma estimate_entries_trace: "estimate_entries w n t j tr = (x, tr') \<Longrightarrow> tr' = tr"
  by (auto simp add: estimate_entries_def eff_defs split: sum.splits prod.splits)

lemma clone_reached:
  assumes "index_repository_body w u br dep [] = (r, tr)" and "GitClone argv \<in> set tr"
  shows "(\<forall>e. git_clone w argv = Inl e \<longrightarrow> r = Inl e)
       \<and> (\<forall>rc err. git_clone w argv = Inr (rc, err) \<and> rc \<noteq> 0 \<longrightarrow>
            r = Inr [(''error'', VStr (''git clone failed: '' @ py_strip (redact (os_environ w ''GIT_TOKEN'') err)))])"
  using assms unfolding index_repository_body_def in_clone_calls
  by (auto simp: eff_defs Let_def split: sum.splits if_splits prod.splits
      dest!: already_indexed_same_trace start_job_clone_calls estimate_entries_trace)


lemma index_repository_unfold:
  assumes "arg_url args = Some u" and "u \<noteq> []"
  shows "index_repository w args tr =
           try_except (index_repository_body w u (get_default (arg_branch args) ''main'')
                         (get_default (arg_is_dependency args) False))
             (index_repository_handler u) tr"
  using assms by (simp add: index_repository_def Let_def)

lemma index_repository_clone_outcome:
  assumes "index_repository w args [] = (r, tr)" and "arg_url args = Some u"
    and "GitClone argv \<in> set tr"
  shows "(\<forall>e. git_clone w argv = Inl e \<longrightarrow> r = fst (index_repository_handler u e []))
       \<and> (\<forall>rc err. git_clone w argv = Inr (rc, err) \<and> rc \<noteq> 0 \<longrightarrow>
            r = Inr [(''error'', VStr (''git clone failed: '' @ py_strip (redact (os_environ w ''GIT_TOKEN'') err)))])"
proof -
  have u: "u \<noteq> []"
  proof
    assume "u = []"
    with assms(1,2) have "tr = []" by (auto simp: index_repository_def Let_def ret_def)
    with assms(3) show False by simp
  qed
  let ?body = "index_repository_body w u (get_default (arg_branch args) ''main'')
                 (get_default (arg_is_dependency args) False)"
  obtain r0 tr0 where b: "?body [] = (r0, tr0)" by (cases "?body []") auto
  have t: "try_except ?body (index_repository_handler u) [] = (r, tr)"
    unfolding index_repository_unfold [OF assms(2) u, symmetric] by (rule assms(1))
  have h: "\<And>e. fst (index_repository_handler u e tr0)
                 = fst (index_repository_handler u e [])
             \<and> clone_calls (snd (index_repository_handler u e tr0))
                 = clone_calls tr0"
    by (simp add: index_repository_handler_def eff_defs)
  have in0: "GitClone argv \<in> set tr0"
  proof (cases r0)
    case (Inl e)
    with t b have "tr = snd (index_repository_handler u e tr0)"
      by (simp add: try_except_def)
    with h [of e] assms(3) show ?thesis by (simp add: in_clone_calls)
  next
    case (Inr d)
    with t b assms(3) show ?thesis by (simp add: try_except_def)
  qed
  note cr = clone_reached [OF b in0]
  show ?thesis
  proof (intro conjI allI impI)
    fix e assume "git_clone w argv = Inl e"
    with cr have "r0 = Inl e" by blast
    with t b have "r = fst (index_repository_handler u e tr0)"
      by (auto simp add: try_except_def)
    with h [of e] show "r = fst (index_repository_handler u e [])" by simp
  next
    fix rc err assume "git_clone w argv = Inr (rc, err) \<and> rc \<noteq> 0"
    with cr have "r0 = Inr [(''error'', VStr (''git clone failed: '' @ py_strip (redact (os_environ w ''GIT_TOKEN'') err)))]"
      by blast
    with t b show "r = Inr [(''error'', VStr (''git clone failed: '' @ py_strip (redact (os_environ w ''GIT_TOKEN'') err)))]"
      by (simp add: try_except_def)
  qed
qed

text \<open>
  C4. The claim says that after a failed clone no occurrence of the token is left in
  the returned text. The code replaces the non-overlapping occurrences of the token in
  the captured error text by \<open>***\<close>, strips the result and puts
  \<open>git clone failed: \<close> before it, so a token made of the marker's character, a token
  that occurs in the fixed text, or one that straddles it is still found in the returned
  text. As amended: when the clone was run with a non-empty token set and exits
  non-zero, the returned mapping is \<open>{"error": text}\<close> with the text just described,
  for every token; the token does not occur in that text provided it contains no
  \<open>*\<close>, does not occur in \<open>git clone failed: \<close> and does not straddle it. When the
  clone times out, the error is \<open>git clone timed out after 300 seconds for \<close>
  followed by the URL as given.
\<close>

theorem clone_failure_text:
  assumes "index_repository w args [] = (r, tr)" and "arg_url args = Some u"
    and "GitClone argv \<in> set tr"
    and "os_environ w ''GIT_TOKEN'' = Some t" and "t \<noteq> []"
  shows "(\<forall>rc err. git_clone w argv = Inr (rc, err) \<and> rc \<noteq> 0
           \<longrightarrow> r = Inr [(''error'', VStr (''git clone failed: '' @ py_strip (py_replace t ''***'' err)))]
               \<and> (CHR ''*'' \<notin> set t \<and> \<not> sublist t ''git clone failed: '' \<and> \<not> straddles_prefix t
                    \<longrightarrow> \<not> sublist t (''git clone failed: '' @ py_strip (py_replace t ''***'' err))))
       \<and> (\<forall>e. git_clone w argv = Inl e \<and> exn_kind_of e = TimeoutExpired
           \<longrightarrow> r = Inr [(''error'', VStr (''git clone timed out after 300 seconds for '' @ u))])"
proof (intro conjI allI impI)
  fix rc err
  assume a: "git_clone w argv = Inr (rc, err) \<and> rc \<noteq> 0"
  from assms(4,5) have rd: "redact (os_environ w ''GIT_TOKEN'') err = py_replace t ''***'' err"
    by (simp add: redact_def)
  from a index_repository_clone_outcome [OF assms(1-3)] rd
  show "r = Inr [(''error'', VStr (''git clone failed: '' @ py_strip (py_replace t ''***'' err)))]"
    by metis
next
  fix rc err
  assume a: "git_clone w argv = Inr (rc, err) \<and> rc \<noteq> 0"
    and b: "CHR ''*'' \<notin> set t \<and> \<not> sublist t ''git clone failed: '' \<and> \<not> straddles_prefix t"
  from b assms(5) have "\<not> sublist t (py_replace t ''***'' err)"
    using no_token_in_py_replace by blast
  then have "\<not> sublist t (py_strip (py_replace t ''***'' err))"
    using sublist_py_strip by blast
  with b show "\<not> sublist t (''git clone failed: '' @ py_strip (py_replace t ''***'' err))"
    using no_token_after_prefix by blast
next
  fix e
  assume a: "git_clone w argv = Inl e \<and> exn_kind_of e = TimeoutExpired"
  with index_repository_clone_outcome [OF assms(1-3)]
  have "r = fst (index_repository_handler u e [])" by blast
  with a show "r = Inr [(''error'', VStr (''git clone timed out after 300 seconds for '' @ u))]"
    by (simp add: index_repository_handler_def ret_def)
qed

lemma index_repository_world_clone:
  "tok \<noteq> [] \<Longrightarrow>
   index_repository (world_clone tok outcome) (args0\<lparr>arg_url := Some url0\<rparr>) [] =
     try_except
       (\<lambda>tr. case outcome of
                Inl e \<Rightarrow> (Inl e, tr)
              | Inr (rc, err) \<Rightarrow>
                  if rc \<noteq> 0 then
                    (Inr [(''error'', VStr (''git clone failed: '' @ py_strip (py_replace tok ''***'' err)))], tr)
                  else (bind (start_job (world_clone tok outcome) ''/workspace/myrepo'' ''/workspace/myrepo'' False)
                   (\<lambda>(job_id, total_files, estimated_time).
                   bind (call (DebugLog (''Started background job '' @ job_id @ '' for cloned repo: ''
                                 @ ''myrepo'' @ '' at '' @ ''/workspace/myrepo'')) (Inr ())) (\<lambda>l.
                   bind (estimate_entries (world_clone tok outcome) total_files estimated_time job_id) (\<lambda>entries.
                     ret ([(''success'', VBool True), (''job_id'', VStr job_id),
                           (''repository'', VStr ''myrepo''),
                           (''clone_path'', VStr ''/workspace/myrepo''),
                           (''branch'', VStr ''main''),
                           (''message'', VStr (''Cloned '' @ quoted ''myrepo'' @ '' and started indexing''))]
                          @ entries))))) tr)
       (index_repository_handler url0)
       [ListRepos,
        DebugLog (''Cloning '' @ url0 @ '' (branch: '' @ ''main'' @ '') into '' @ ''/workspace/myrepo''),
        GitClone (argv0 tok)]"
  by (simp add: index_repository_def index_repository_body_def eff_defs world_clone_def world0_def
      args0_def url0_def derive_myrepo workspace_join_def repositories_def build_clone_url_def
      truthy_def py_str_opt_def get_default_def redact_def argv0_def Let_def
      split: sum.splits prod.splits)


theorem clone_failure_text_counterexample:
  "fst (index_repository (world_clone ''*'' (Inr (128, stderr_star))) (args0\<lparr>arg_url := Some url0\<rparr>) [])
     = Inr [(''error'', VStr ''git clone failed: fatal: bad credentials for https://***@example.com'')]
   \<and> sublist ''*'' ''git clone failed: fatal: bad credentials for https://***@example.com''
   \<and> fst (index_repository (world_clone ''git'' (Inr (128, ''fatal: denied''))) (args0\<lparr>arg_url := Some url0\<rparr>) [])
     = Inr [(''error'', VStr ''git clone failed: fatal: denied'')]
   \<and> sublist ''git'' ''git clone failed: fatal: denied''
   \<and> fst (index_repository (world_clone '': f'' (Inr (128, ''fatal''))) (args0\<lparr>arg_url := Some url0\<rparr>) [])
     = Inr [(''error'', VStr ''git clone failed: fatal'')]
   \<and> sublist '': f'' ''git clone failed: fatal''"
proof -
  have 1: "py_strip (py_replace ''*'' ''***'' stderr_star) = ''fatal: bad credentials for https://***@example.com''"
    by (simp add: py_replace_def replace_from.simps py_strip_def py_isspace_def stderr_star_def)
  have 2: "py_strip (py_replace ''git'' ''***'' ''fatal: denied'') = ''fatal: denied''"
    by (simp add: py_replace_def replace_from.simps py_strip_def py_isspace_def)
  have 3: "py_strip (py_replace '': f'' ''***'' ''fatal'') = ''fatal''"
    by (simp add: py_replace_def replace_from.simps py_strip_def py_isspace_def)
  have a: "fst (index_repository (world_clone ''*'' (Inr (128, stderr_star))) (args0\<lparr>arg_url := Some url0\<rparr>) [])
     = Inr [(''error'', VStr ''git clone failed: fatal: bad credentials for https://***@example.com'')]"
    by (simp add: index_repository_world_clone try_except_def 1)
  have b: "fst (index_repository (world_clone ''git'' (Inr (128, ''fatal: denied''))) (args0\<lparr>arg_url := Some url0\<rparr>) [])
     = Inr [(''error'', VStr ''git clone failed: fatal: denied'')]"
    by (simp add: index_repository_world_clone try_except_def 2)
  have c: "fst (index_repository (world_clone '': f'' (Inr (128, ''fatal''))) (args0\<lparr>arg_url := Some url0\<rparr>) [])
     = Inr [(''error'', VStr ''git clone failed: fatal'')]"
    by (simp add: index_repository_world_clone try_except_def 3)
  have d: "sublist ''*'' ''git clone failed: fatal: bad credentials for https://***@example.com''"
    by (simp add: sublist_Cons_right)
  have e: "sublist ''git'' ''git clone failed: fatal: denied''"
    by (simp add: sublist_Cons_right)
  have f: "sublist '': f'' ''git clone failed: fatal''"
    by (simp add: sublist_Cons_right)
  from a b c d e f show ?thesis by blast
qed

theorem clone_failure_text_witness:
  "fst (index_repository (world_clone ''tok_S3cr3t'' (Inr (128, stderr_tok))) (args0\<lparr>arg_url := Some url0\<rparr>) [])
     = Inr [(''error'', VStr (''git clone failed: '' @ py_strip (py_replace ''tok_S3cr3t'' ''***'' stderr_tok)))]
   \<and> \<not> sublist ''tok_S3cr3t'' (''git clone failed: '' @ py_strip (py_replace ''tok_S3cr3t'' ''***'' stderr_tok))
   \<and> py_strip (py_replace ''tok_S3cr3t'' ''***'' stderr_tok)
        = ''fatal: Authentication failed for https://***@example.com/org/myrepo.git''
   \<and> fst (index_repository (world_clone ''a b'' (Inr (1, ''denied: a b c''))) (args0\<lparr>arg_url := Some url0\<rparr>) [])
     = Inr [(''error'', VStr (''git clone failed: '' @ py_strip (py_replace ''a b'' ''***'' ''denied: a b c'')))]
   \<and> \<not> sublist ''a b'' (''git clone failed: '' @ py_strip (py_replace ''a b'' ''***'' ''denied: a b c''))
   \<and> fst (index_repository (world_clone ''*'' (Inr (128, stderr_star))) (args0\<lparr>arg_url := Some url0\<rparr>) [])
     = Inr [(''error'', VStr (''git clone failed: '' @ py_strip (py_replace ''*'' ''***'' stderr_star)))]
   \<and> fst (index_repository (world_clone ''tok_S3cr3t'' (Inl (Exn TimeoutExpired ''timed out''))) (args0\<lparr>arg_url := Some url0\<rparr>) [])
     = Inr [(''error'', VStr (''git clone timed out after 300 seconds for '' @ url0))]"
proof -
  let ?A = "args0\<lparr>arg_url := Some url0\<rparr>"
  let ?W = "world_clone ''tok_S3cr3t'' (Inr (128, stderr_tok))"
  let ?X = "world_clone ''a b'' (Inr (1, ''denied: a b c''))"
  let ?Y = "world_clone ''*'' (Inr (128, stderr_star))"
  let ?V = "world_clone ''tok_S3cr3t'' (Inl (Exn TimeoutExpired ''timed out''))"
  have tr: "\<And>tok outcome. tok \<noteq> [] \<Longrightarrow>
     index_repository (world_clone tok outcome) ?A [] =
       (fst (index_repository (world_clone tok outcome) ?A []),
        snd (index_repository (world_clone tok outcome) ?A []))
     \<and> GitClone (argv0 tok) \<in> set (snd (index_repository (world_clone tok outcome) ?A []))
     \<or> (\<exists>x. outcome = Inr (0, x))"
  proof -
    fix tok :: string and outcome :: "exn + int \<times> string"
    assume "tok \<noteq> []"
    then show "index_repository (world_clone tok outcome) ?A [] =
       (fst (index_repository (world_clone tok outcome) ?A []),
        snd (index_repository (world_clone tok outcome) ?A []))
     \<and> GitClone (argv0 tok) \<in> set (snd (index_repository (world_clone tok outcome) ?A []))
     \<or> (\<exists>x. outcome = Inr (0, x))"
      by (cases outcome)
        (auto simp add: index_repository_world_clone try_except_def index_repository_handler_def
          eff_defs)
  qed
  have u: "arg_url ?A = Some url0" by simp
  have tok: "\<And>tok outcome. os_environ (world_clone tok outcome) ''GIT_TOKEN'' = Some tok"
    by (simp add: world_clone_def)
  have gc: "\<And>tok outcome argv. git_clone (world_clone tok outcome) argv = outcome"
    by (simp add: world_clone_def)
  have pw: "CHR ''*'' \<notin> set ''tok_S3cr3t'' \<and> \<not> sublist ''tok_S3cr3t'' ''git clone failed: ''
      \<and> \<not> straddles_prefix ''tok_S3cr3t''"
    by (simp add: sublist_Cons_right straddles_prefix_def py_isspace_def suffix_to_prefix)
  have px: "CHR ''*'' \<notin> set ''a b'' \<and> \<not> sublist ''a b'' ''git clone failed: ''
      \<and> \<not> straddles_prefix ''a b''"
    by (simp add: sublist_Cons_right straddles_prefix_def py_isspace_def suffix_to_prefix)
  from tr [of "''tok_S3cr3t''" "Inr (128, stderr_tok)"]
  have w: "index_repository ?W ?A [] = (fst (index_repository ?W ?A []), snd (index_repository ?W ?A []))"
    and wi: "GitClone (argv0 ''tok_S3cr3t'') \<in> set (snd (index_repository ?W ?A []))" by simp_all
  from tr [of "''a b''" "Inr (1, ''denied: a b c'')"]
  have x: "index_repository ?X ?A [] = (fst (index_repository ?X ?A []), snd (index_repository ?X ?A []))"
    and xi: "GitClone (argv0 ''a b'') \<in> set (snd (index_repository ?X ?A []))" by simp_all
  from tr [of "''*''" "Inr (128, stderr_star)"]
  have y: "index_repository ?Y ?A [] = (fst (index_repository ?Y ?A []), snd (index_repository ?Y ?A []))"
    and yi: "GitClone (argv0 ''*'') \<in> set (snd (index_repository ?Y ?A []))" by simp_all
  from tr [of "''tok_S3cr3t''" "Inl (Exn TimeoutExpired ''timed out'')"]
  have v: "index_repository ?V ?A [] = (fst (index_repository ?V ?A []), snd (index_repository ?V ?A []))"
    and vi: "GitClone (argv0 ''tok_S3cr3t'') \<in> set (snd (index_repository ?V ?A []))" by simp_all
  from clone_failure_text [OF w u wi tok] gc [of "''tok_S3cr3t''" "Inr (128, stderr_tok)"] pw
  have 1: "fst (index_repository ?W ?A [])
     = Inr [(''error'', VStr (''git clone failed: '' @ py_strip (py_replace ''tok_S3cr3t'' ''***'' stderr_tok)))]
   \<and> \<not> sublist ''tok_S3cr3t'' (''git clone failed: '' @ py_strip (py_replace ''tok_S3cr3t'' ''***'' stderr_tok))"
    by simp
  from clone_failure_text [OF x u xi tok] gc [of "''a b''" "Inr (1, ''denied: a b c'')"] px
  have 2: "fst (index_repository ?X ?A [])
     = Inr [(''error'', VStr (''git clone failed: '' @ py_strip (py_replace ''a b'' ''***'' ''denied: a b c'')))]
   \<and> \<not> sublist ''a b'' (''git clone failed: '' @ py_strip (py_replace ''a b'' ''***'' ''denied: a b c''))"
    by simp
  from clone_failure_text [OF y u yi tok] gc [of "''*''" "Inr (128, stderr_star)"]
  have 3: "fst (index_repository ?Y ?A [])
     = Inr [(''error'', VStr (''git clone failed: '' @ py_strip (py_replace ''*'' ''***'' stderr_star)))]"
    by simp
  from clone_failure_text [OF v u vi tok] gc [of "''tok_S3cr3t''" "Inl (Exn TimeoutExpired ''timed out'')"]
  have 4: "fst (index_repository ?V ?A [])
     = Inr [(''error'', VStr (''git clone timed out after 300 seconds for '' @ url0))]"
    by simp
  have 5: "py_strip (py_replace ''tok_S3cr3t'' ''***'' stderr_tok)
        = ''fatal: Authentication failed for https://***@example.com/org/myrepo.git''"
    by (simp add: py_replace_def replace_from.simps py_strip_def py_isspace_def stderr_tok_def)
  from 1 2 3 4 5 show ?thesis by blast
qed

end
